theory Spec2Isabelle
  imports Main "HOL-Library.Sublist"
begin

section \<open>The web server sketch of the Metriful sensor examples\<close>

text \<open>
  A shallow embedding of \<^verbatim>\<open>Arduino/Examples/web_server/web_server.ino\<close>: the refresh
  period chosen in \<^verbatim>\<open>setup\<close>, the page assembly \<^verbatim>\<open>assembleWebPage\<close> with its two
  fixed-size character buffers, the request loop \<^verbatim>\<open>handleClientRequests\<close> and one
  pass of \<^verbatim>\<open>loop\<close>.

  The sketch includes \<^verbatim>\<open>Metriful_sensor.h\<close> and \<^verbatim>\<open>WiFi_functions.h\<close>. Neither
  header is among the sources, so whatever the sketch takes from them (macros, tables,
  helper functions) is a field of the record \<open>header\<close> below and every theorem says
  what it needs of these fields.
\<close>

subsection \<open>Data records\<close>

text \<open>
  The five data structs. Their declarations are in the header; the fields are the ones
  the sketch reads, under the names it uses. All of them are unsigned integers and are
  modelled as natural numbers; the ranges a theorem relies on are hypotheses
  (\<open>records_in_range\<close> below). The temperature part of the air data is read only by
  the helper \<^verbatim>\<open>getTemperature\<close>; it is kept as the raw bytes \<open>T_bytes\<close>.
\<close>

record AirData_t =
  T_bytes :: "nat list"
  P_Pa :: nat
  H_pc_int :: nat
  H_pc_fr_1dp :: nat
  G_ohm :: nat

record AirQualityData_t =
  AQI_int :: nat
  AQI_fr_1dp :: nat
  CO2e_int :: nat
  CO2e_fr_1dp :: nat
  bVOC_int :: nat
  bVOC_fr_2dp :: nat
  AQI_accuracy :: nat

record LightData_t =
  illum_lux_int :: nat
  illum_lux_fr_2dp :: nat
  white :: nat

record SoundData_t =
  SPL_dBA_int :: nat
  SPL_dBA_fr_1dp :: nat
  SPL_bands_dB_int :: "nat list"
  SPL_bands_dB_fr_1dp :: "nat list"
  peak_amp_mPa_int :: nat
  peak_amp_mPa_fr_2dp :: nat

record ParticleData_t =
  duty_cycle_pc_int :: nat
  duty_cycle_pc_fr_2dp :: nat
  concentration_int :: nat
  concentration_fr_2dp :: nat

text \<open>The global data structs of the sketch (lines 70 to 74).\<close>

record records =
  airData :: AirData_t
  airQualityData :: AirQualityData_t
  lightData :: LightData_t
  particleData :: ParticleData_t
  soundData :: SoundData_t

text \<open>
  What \<^verbatim>\<open>getTemperature\<close> hands back: the returned unit string and the three
  values written through its pointer arguments.
\<close>

record temperature =
  unit :: string
  T_intPart :: nat
  T_fractionalPart :: nat
  isPositive :: bool

text \<open>
  The two enumerations of settings. The header gives each name a number; the sketch
  only compares the setting with the names, so the names are the values here.
\<close>

datatype cycle_period_t = CYCLE_PERIOD_3_S | CYCLE_PERIOD_100_S | CYCLE_PERIOD_300_S

datatype particle_sensor_t =
  PARTICLE_SENSOR_OFF | PARTICLE_SENSOR_PPD42 | PARTICLE_SENSOR_SDS011

text \<open>
  Everything else the sketch takes from the two headers. \<open>PARTICLE_SENSOR\<close> is the
  configured particle sensor; \<open>SOUND_FREQ_BANDS\<close> is the bound of the band loop and
  \<open>sound_band_mids_Hz\<close> the table it indexes.
\<close>

record header =
  PARTICLE_SENSOR :: particle_sensor_t
  SOUND_FREQ_BANDS :: nat
  sound_band_mids_Hz :: "nat list"
  OHM_SYMBOL :: string
  SUBSCRIPT_2 :: string
  SDS011_UNIT_SYMBOL :: string
  getTemperature :: "AirData_t \<Rightarrow> temperature"
  interpret_AQI_accuracy :: "nat \<Rightarrow> string"
  interpret_AQI_value :: "nat \<Rightarrow> string"
  WL_CONNECTED :: nat
  interpret_WiFi_status :: "nat \<Rightarrow> string"

subsection \<open>Formatting\<close>

text \<open>The conversions \<^verbatim>\<open>%u\<close> and \<^verbatim>\<open>%02u\<close> of \<^verbatim>\<open>sprintf\<close>.\<close>

definition digit :: "nat \<Rightarrow> char" where
  "digit n = ''0123456789'' ! n"

fun dec :: "nat \<Rightarrow> string" where
  "dec n = (if n < 10 then [digit n] else dec (n div 10) @ [digit (n mod 10)])"

declare dec.simps [simp del]

definition dec02 :: "nat \<Rightarrow> string" where
  "dec02 n = (if n < 10 then CHR ''0'' # dec n else dec n)"

text \<open>The inverse of \<open>dec\<close>, used only to state that \<open>dec\<close> is decimal notation.\<close>

definition digit_value :: "char \<Rightarrow> nat" where
  "digit_value c = of_char c - 48"

definition undec :: "string \<Rightarrow> nat" where
  "undec s = foldl (\<lambda>a c. 10 * a + digit_value c) 0 s"

definition CRLF :: string where
  "CRLF = [CHR 0x0D, CHR 0x0A]"

text \<open>The format strings of \<^verbatim>\<open>assembleWebPage\<close>, applied to their arguments.\<close>

definition response_header :: "nat \<Rightarrow> string" where
  "response_header refreshPeriodSeconds =
     ''HTTP/1.1 200 OK'' @ CRLF @
     ''Content-type: text/html'' @ CRLF @
     ''Connection: close'' @ CRLF @
     ''Refresh: '' @ dec refreshPeriodSeconds @ CRLF @ CRLF"

definition html_head :: string where
  "html_head =
     ''<!DOCTYPE HTML><html><head>'' @
     ''<meta charset='UTF-8'>'' @
     ''<title>Metriful Sensor Demo</title>'' @
     ''<style>'' @
     ''h1{font-size: 3vw;}'' @
     ''h2{font-size: 2vw; margin-top: 4vw;}'' @
     ''a{padding: 1vw; font-size: 2vw;}'' @
     ''table,th,td{font-size: 2vw;}'' @
     ''body{padding: 0vw 2vw;}'' @
     ''th,td{padding: 0.05vw 1vw; text-align: left;}'' @
     ''#v1{text-align: right; width: 10vw;}'' @
     ''#v2{text-align: right; width: 13vw;}'' @
     ''#v3{text-align: right; width: 10vw;}'' @
     ''#v4{text-align: right; width: 10vw;}'' @
     ''#v5{text-align: right; width: 11vw;}'' @
     ''</style></head>'' @
     ''<body><h1>Indoor Environment Data</h1>''"

definition temperature_row :: "temperature \<Rightarrow> string" where
  "temperature_row t =
     ''<tr><td>Temperature</td><td id='v1'>'' @ (if isPositive t then [] else ''-'') @
     dec (T_intPart t) @ ''.'' @ dec (T_fractionalPart t) @
     ''</td><td>'' @ unit t @ ''</td></tr>''"

definition pressure_row :: "AirData_t \<Rightarrow> string" where
  "pressure_row a =
     ''<tr><td>Pressure</td><td id='v1'>'' @ dec (P_Pa a) @ ''</td><td>Pa</td></tr>''"

definition humidity_row :: "AirData_t \<Rightarrow> string" where
  "humidity_row a =
     ''<tr><td>Humidity</td><td id='v1'>'' @ dec (H_pc_int a) @ ''.'' @
     dec (H_pc_fr_1dp a) @ ''</td><td>%</td></tr>''"

definition gas_row :: "header \<Rightarrow> AirData_t \<Rightarrow> string" where
  "gas_row h a =
     ''<tr><td>Gas Sensor Resistance</td>'' @
     ''<td id='v1'>'' @ dec (G_ohm a) @ ''</td><td>'' @ OHM_SYMBOL h @
     ''</td></tr></table></p>''"

definition accuracy_message :: "header \<Rightarrow> AirQualityData_t \<Rightarrow> string" where
  "accuracy_message h q =
     ''<a>'' @ interpret_AQI_accuracy h (AQI_accuracy q) @ ''</a></p>''"

definition aqi_row :: "AirQualityData_t \<Rightarrow> string" where
  "aqi_row q =
     ''<table><tr><td>Air Quality Index</td><td id='v2'>'' @ dec (AQI_int q) @ ''.'' @
     dec (AQI_fr_1dp q) @ ''</td><td></td></tr>''"

definition aqi_summary_row :: "header \<Rightarrow> AirQualityData_t \<Rightarrow> string" where
  "aqi_summary_row h q =
     ''<tr><td>Air Quality Summary</td><td id='v2'>'' @
     interpret_AQI_value h (AQI_int q) @ ''</td><td></td></tr>''"

definition co2_row :: "header \<Rightarrow> AirQualityData_t \<Rightarrow> string" where
  "co2_row h q =
     ''<tr><td>Estimated CO'' @ SUBSCRIPT_2 h @ ''</td><td id='v2'>'' @
     dec (CO2e_int q) @ ''.'' @ dec (CO2e_fr_1dp q) @ ''</td><td>ppm</td></tr>''"

definition bvoc_row :: "AirQualityData_t \<Rightarrow> string" where
  "bvoc_row q =
     ''<tr><td>Equivalent Breath VOC</td>'' @
     ''<td id='v2'>'' @ dec (bVOC_int q) @ ''.'' @ dec02 (bVOC_fr_2dp q) @
     ''</td><td>ppm</td></tr></table></p>''"

definition spl_row :: "SoundData_t \<Rightarrow> string" where
  "spl_row s =
     ''<tr><td>A-weighted Sound Pressure Level</td>'' @
     ''<td id='v3'>'' @ dec (SPL_dBA_int s) @ ''.'' @ dec (SPL_dBA_fr_1dp s) @
     ''</td><td>dBA</td></tr>''"

definition band_row :: "header \<Rightarrow> SoundData_t \<Rightarrow> nat \<Rightarrow> string" where
  "band_row h s i =
     ''<tr><td>Frequency Band '' @ dec (i + 1) @ '' ('' @
     dec (sound_band_mids_Hz h ! i) @ '' Hz) SPL</td>'' @
     ''<td id='v3'>'' @ dec (SPL_bands_dB_int s ! i) @ ''.'' @
     dec (SPL_bands_dB_fr_1dp s ! i) @ ''</td><td>dB</td></tr>''"

definition peak_row :: "SoundData_t \<Rightarrow> string" where
  "peak_row s =
     ''<tr><td>Peak Sound Amplitude</td>'' @
     ''<td id='v3'>'' @ dec (peak_amp_mPa_int s) @ ''.'' @ dec02 (peak_amp_mPa_fr_2dp s) @
     ''</td><td>mPa</td></tr></table></p>''"

definition illuminance_row :: "LightData_t \<Rightarrow> string" where
  "illuminance_row l =
     ''<tr><td>Illuminance</td><td id='v4'>'' @ dec (illum_lux_int l) @ ''.'' @
     dec02 (illum_lux_fr_2dp l) @ ''</td><td>lux</td></tr>''"

definition white_row :: "LightData_t \<Rightarrow> string" where
  "white_row l =
     ''<tr><td>White Light Level</td><td id='v4'>'' @ dec (white l) @
     ''</td><td></td></tr>'' @ ''</table></p>''"

definition duty_cycle_row :: "ParticleData_t \<Rightarrow> string" where
  "duty_cycle_row p =
     ''<tr><td>Sensor Duty Cycle</td><td id='v5'>'' @ dec (duty_cycle_pc_int p) @ ''.'' @
     dec02 (duty_cycle_pc_fr_2dp p) @ ''</td><td>%</td></tr>''"

definition concentration_row :: "ParticleData_t \<Rightarrow> string \<Rightarrow> string" where
  "concentration_row p unitsBuffer =
     ''<tr><td>Particle Concentration</td>'' @
     ''<td id='v5'>'' @ dec (concentration_int p) @ ''.'' @
     dec02 (concentration_fr_2dp p) @ ''</td><td>'' @ unitsBuffer @
     ''</td></tr></table></p>''"

subsection \<open>The character buffers\<close>

text \<open>
  \<^verbatim>\<open>char lineBuffer[100]\<close> and \<^verbatim>\<open>char pageBuffer[2300]\<close> hold C strings: a buffer
  of \<open>n\<close> bytes holds at most \<open>n - 1\<close> characters and the terminating NUL. The model
  keeps the string in each buffer. \<^verbatim>\<open>sprintf\<close>, \<^verbatim>\<open>strcat\<close> and \<^verbatim>\<open>strcpy\<close> do not
  check the space they write to; a write past the end of a buffer, and a read past the
  end of an array, is a \<open>fault\<close> of the model, after which nothing more is said about
  the run.
\<close>

datatype fault =
  pageBuffer_overflow | lineBuffer_overflow | unitsBuffer_overflow | index_out_of_range

record buffers =
  lineBuffer :: string
  pageBuffer :: string

definition lineBuffer_size :: nat where
  "lineBuffer_size = 100"

definition pageBuffer_size :: nat where
  "pageBuffer_size = 2300"

definition unitsBuffer_size :: nat where
  "unitsBuffer_size = 7"

definition sprintf_pageBuffer :: "string \<Rightarrow> buffers \<Rightarrow> fault + buffers" where
  "sprintf_pageBuffer s b =
     (if length s < pageBuffer_size then Inr (b\<lparr>pageBuffer := s\<rparr>)
      else Inl pageBuffer_overflow)"

definition strcat_pageBuffer :: "string \<Rightarrow> buffers \<Rightarrow> fault + buffers" where
  "strcat_pageBuffer s b =
     (if length (pageBuffer b) + length s < pageBuffer_size
      then Inr (b\<lparr>pageBuffer := pageBuffer b @ s\<rparr>)
      else Inl pageBuffer_overflow)"

definition sprintf_lineBuffer :: "string \<Rightarrow> buffers \<Rightarrow> fault + buffers" where
  "sprintf_lineBuffer s b =
     (if length s < lineBuffer_size then Inr (b\<lparr>lineBuffer := s\<rparr>)
      else Inl lineBuffer_overflow)"

definition strcat_pageBuffer_lineBuffer :: "buffers \<Rightarrow> fault + buffers" where
  "strcat_pageBuffer_lineBuffer b = strcat_pageBuffer (lineBuffer b) b"

definition strcpy_unitsBuffer :: "string \<Rightarrow> buffers \<Rightarrow> fault + buffers" where
  "strcpy_unitsBuffer s b =
     (if length s < unitsBuffer_size then Inr b else Inl unitsBuffer_overflow)"

text \<open>Statements in sequence: the first fault ends the run.\<close>

fun run :: "('s \<Rightarrow> fault + 's) list \<Rightarrow> 's \<Rightarrow> fault + 's" where
  "run [] s = Inr s"
| "run (f # fs) s = (case f s of Inl e \<Rightarrow> Inl e | Inr s' \<Rightarrow> run fs s')"

subsection \<open>assembleWebPage\<close>

text \<open>
  One statement of the sketch per list element, in the order of the source. The pair
  \<^verbatim>\<open>sprintf(lineBuffer, ...); strcat(pageBuffer, lineBuffer);\<close> is the pair
  \<open>sprintf_lineBuffer\<close>, \<open>strcat_pageBuffer_lineBuffer\<close>.
\<close>

definition air_data_section :: "header \<Rightarrow> records \<Rightarrow> (buffers \<Rightarrow> fault + buffers) list" where
  "air_data_section h d =
     [strcat_pageBuffer ''<p><h2>Air Data</h2><table>'',
      sprintf_lineBuffer (temperature_row (getTemperature h (airData d))),
      strcat_pageBuffer_lineBuffer,
      sprintf_lineBuffer (pressure_row (airData d)),
      strcat_pageBuffer_lineBuffer,
      sprintf_lineBuffer (humidity_row (airData d)),
      strcat_pageBuffer_lineBuffer,
      sprintf_lineBuffer (gas_row h (airData d)),
      strcat_pageBuffer_lineBuffer]"

definition air_quality_section ::
  "header \<Rightarrow> records \<Rightarrow> (buffers \<Rightarrow> fault + buffers) list" where
  "air_quality_section h d =
     strcat_pageBuffer ''<p><h2>Air Quality Data</h2>'' #
     (if AQI_accuracy (airQualityData d) = 0
      then
        [sprintf_lineBuffer (accuracy_message h (airQualityData d)),
         strcat_pageBuffer_lineBuffer]
      else
        [sprintf_lineBuffer (aqi_row (airQualityData d)),
         strcat_pageBuffer_lineBuffer,
         sprintf_lineBuffer (aqi_summary_row h (airQualityData d)),
         strcat_pageBuffer_lineBuffer,
         sprintf_lineBuffer (co2_row h (airQualityData d)),
         strcat_pageBuffer_lineBuffer,
         sprintf_lineBuffer (bvoc_row (airQualityData d)),
         strcat_pageBuffer_lineBuffer])"

text \<open>
  The body of the band loop for one value of \<open>i\<close>: the three array reads, then the two
  statements. The loop counter is a \<^verbatim>\<open>uint8_t\<close>; it cannot wrap in a run without
  fault, since every pass appends more than 70 characters to the page buffer.
\<close>

definition band_read :: "header \<Rightarrow> SoundData_t \<Rightarrow> nat \<Rightarrow> buffers \<Rightarrow> fault + buffers" where
  "band_read h s i b =
     (if i < length (sound_band_mids_Hz h) \<and> i < length (SPL_bands_dB_int s) \<and>
         i < length (SPL_bands_dB_fr_1dp s)
      then sprintf_lineBuffer (band_row h s i) b
      else Inl index_out_of_range)"

definition band_loop :: "header \<Rightarrow> SoundData_t \<Rightarrow> (buffers \<Rightarrow> fault + buffers) list" where
  "band_loop h s =
     concat (map (\<lambda>i. [band_read h s i, strcat_pageBuffer_lineBuffer])
       [0 ..< SOUND_FREQ_BANDS h])"

definition sound_section :: "header \<Rightarrow> records \<Rightarrow> (buffers \<Rightarrow> fault + buffers) list" where
  "sound_section h d =
     [strcat_pageBuffer ''<p><h2>Sound Data</h2><table>'',
      sprintf_lineBuffer (spl_row (soundData d)),
      strcat_pageBuffer_lineBuffer] @
     band_loop h (soundData d) @
     [sprintf_lineBuffer (peak_row (soundData d)),
      strcat_pageBuffer_lineBuffer]"

definition light_section :: "records \<Rightarrow> (buffers \<Rightarrow> fault + buffers) list" where
  "light_section d =
     [strcat_pageBuffer ''<p><h2>Light Data</h2><table>'',
      sprintf_lineBuffer (illuminance_row (lightData d)),
      strcat_pageBuffer_lineBuffer,
      sprintf_lineBuffer (white_row (lightData d)),
      strcat_pageBuffer_lineBuffer]"

definition particle_units :: "header \<Rightarrow> string" where
  "particle_units h =
     (if PARTICLE_SENSOR h = PARTICLE_SENSOR_PPD42 then ''ppL''
      else if PARTICLE_SENSOR h = PARTICLE_SENSOR_SDS011 then SDS011_UNIT_SYMBOL h
      else ''(?)'')"

definition particle_section :: "header \<Rightarrow> records \<Rightarrow> (buffers \<Rightarrow> fault + buffers) list" where
  "particle_section h d =
     (if PARTICLE_SENSOR h \<noteq> PARTICLE_SENSOR_OFF
      then
        [strcat_pageBuffer ''<p><h2>Air Particulate Data</h2><table>'',
         sprintf_lineBuffer (duty_cycle_row (particleData d)),
         strcat_pageBuffer_lineBuffer,
         strcpy_unitsBuffer (particle_units h),
         sprintf_lineBuffer (concentration_row (particleData d) (particle_units h)),
         strcat_pageBuffer_lineBuffer]
      else [])"

definition assembleWebPage :: "header \<Rightarrow> records \<Rightarrow> nat \<Rightarrow> buffers \<Rightarrow> fault + buffers" where
  "assembleWebPage h d refreshPeriodSeconds =
     run
       ([sprintf_pageBuffer (response_header refreshPeriodSeconds),
         strcat_pageBuffer html_head] @
        air_data_section h d @
        air_quality_section h d @
        sound_section h d @
        light_section d @
        particle_section h d @
        [strcat_pageBuffer ''</body></html>''])"

subsection \<open>handleClientRequests\<close>

text \<open>
  The client as the loop \<^verbatim>\<open>while (client.connected())\<close> sees it: one list element
  for each pass, \<open>Some c\<close> when \<^verbatim>\<open>client.available()\<close> holds and \<^verbatim>\<open>client.read()\<close>
  gives \<open>c\<close>, \<open>None\<close> when no byte is available; the list ends when the client is no
  longer connected. A client that stays connected and silent for ever keeps the loop
  running; that run is not a list.

  The result of \<open>request_loop\<close> is what \<^verbatim>\<open>client.print\<close> sends, if it is called.
\<close>

fun request_loop :: "string \<Rightarrow> bool \<Rightarrow> char option list \<Rightarrow> string option" where
  "request_loop page blankLine [] = None"
| "request_loop page blankLine (None # ps) = request_loop page blankLine ps"
| "request_loop page blankLine (Some c # ps) =
     (if c = CHR 0x0A
      then (if blankLine then Some page else request_loop page True ps)
      else if c \<noteq> CHR 0x0D then request_loop page False ps
      else request_loop page blankLine ps)"

record exchange =
  sent :: "string option"
  stopped :: bool

text \<open>
  \<^verbatim>\<open>server.available()\<close> gives the pending client, if there is one; \<open>None\<close> is the
  call that finds no client and does nothing.
\<close>

definition handleClientRequests :: "string \<Rightarrow> char option list option \<Rightarrow> exchange option" where
  "handleClientRequests page client =
     (case client of
        None \<Rightarrow> None
      | Some passes \<Rightarrow> Some \<lparr>sent = request_loop page False passes, stopped = True\<rparr>)"

text \<open>The bytes a client has sent, and a request sent in one piece before closing.\<close>

definition received :: "char option list \<Rightarrow> string" where
  "received passes = concat (map (\<lambda>p. case p of None \<Rightarrow> [] | Some c \<Rightarrow> [c]) passes)"

definition sends :: "string \<Rightarrow> char option list" where
  "sends request = map Some request"

text \<open>
  The empty line in the words of the specification: two end-of-line markers with
  nothing but carriage returns between them.
\<close>

definition empty_line_observed :: "string \<Rightarrow> bool" where
  "empty_line_observed s \<longleftrightarrow>
     (\<exists>before between after.
        s = before @ [CHR 0x0A] @ between @ [CHR 0x0A] @ after \<and>
        set between \<subseteq> {CHR 0x0D})"

text \<open>
  The same by recursion, for the proofs: \<open>line_end_next s\<close> says that \<open>s\<close> begins
  with carriage returns followed by an end-of-line marker.
\<close>

fun line_end_next :: "string \<Rightarrow> bool" where
  "line_end_next [] = False"
| "line_end_next (c # s) = (c = CHR 0x0A \<or> c = CHR 0x0D \<and> line_end_next s)"

subsection \<open>setup and loop\<close>

type_synonym IPAddress = "nat \<times> nat \<times> nat \<times> nat"

definition print_IPAddress :: "IPAddress \<Rightarrow> string" where
  "print_IPAddress ip =
     (case ip of (a, b, c, d) \<Rightarrow> dec a @ ''.'' @ dec b @ ''.'' @ dec c @ ''.'' @ dec d)"

text \<open>The global variables of the sketch.\<close>

record sketch =
  cycle_period :: cycle_period_t
  createWifiNetwork :: bool
  theIP :: IPAddress
  refreshPeriodSeconds :: nat
  readings :: records
  bufs :: buffers
  ready_assertion_event :: bool

text \<open>What the sketch does to the world outside, in the order it does it.\<close>

datatype event =
    client_handled exchange
  | yield
  | ReceiveI2C_air | ReceiveI2C_air_quality | ReceiveI2C_light | ReceiveI2C_sound
  | ReceiveI2C_particle
  | WiFi_status
  | Serial_print string
  | Serial_println string
  | connectToWiFi
  | WiFi_localIP
  | SensorHardwareSetup
  | createWiFiAP
  | server_begin
  | TransmitI2C_particle_sensor | TransmitI2C_cycle_period | TransmitI2C_cycle_mode

text \<open>
  The initialisers of the globals (lines 34 to 78): the two user settings as chosen,
  every data struct and both buffers zeroed. A zeroed character buffer holds the empty
  string.
\<close>

definition zero_records :: "header \<Rightarrow> records" where
  "zero_records h =
     \<lparr>airData = \<lparr>T_bytes = [0, 0], P_Pa = 0, H_pc_int = 0, H_pc_fr_1dp = 0, G_ohm = 0\<rparr>,
      airQualityData = \<lparr>AQI_int = 0, AQI_fr_1dp = 0, CO2e_int = 0, CO2e_fr_1dp = 0,
        bVOC_int = 0, bVOC_fr_2dp = 0, AQI_accuracy = 0\<rparr>,
      lightData = \<lparr>illum_lux_int = 0, illum_lux_fr_2dp = 0, white = 0\<rparr>,
      particleData = \<lparr>duty_cycle_pc_int = 0, duty_cycle_pc_fr_2dp = 0,
        concentration_int = 0, concentration_fr_2dp = 0\<rparr>,
      soundData = \<lparr>SPL_dBA_int = 0, SPL_dBA_fr_1dp = 0,
        SPL_bands_dB_int = replicate (SOUND_FREQ_BANDS h) 0,
        SPL_bands_dB_fr_1dp = replicate (SOUND_FREQ_BANDS h) 0,
        peak_amp_mPa_int = 0, peak_amp_mPa_fr_2dp = 0\<rparr>\<rparr>"

definition power_on :: "header \<Rightarrow> cycle_period_t \<Rightarrow> bool \<Rightarrow> sketch" where
  "power_on h period create =
     \<lparr>cycle_period = period, createWifiNetwork = create, theIP = (192, 168, 12, 20),
      refreshPeriodSeconds = 0, readings = zero_records h,
      bufs = \<lparr>lineBuffer = [], pageBuffer = []\<rparr>, ready_assertion_event = False\<rparr>"

text \<open>Lines 124 to 132 of \<^verbatim>\<open>setup\<close>.\<close>

definition select_refreshPeriodSeconds :: "cycle_period_t \<Rightarrow> nat" where
  "select_refreshPeriodSeconds period =
     (if period = CYCLE_PERIOD_3_S then 3
      else if period = CYCLE_PERIOD_100_S then 30
      else 50)"

text \<open>
  The seconds between two data releases for each setting, as the names of the settings
  and the comment on \<^verbatim>\<open>cycle_period\<close> give them.
\<close>

fun cycle_seconds :: "cycle_period_t \<Rightarrow> nat" where
  "cycle_seconds CYCLE_PERIOD_3_S = 3"
| "cycle_seconds CYCLE_PERIOD_100_S = 100"
| "cycle_seconds CYCLE_PERIOD_300_S = 300"

text \<open>
  \<^verbatim>\<open>setup\<close>. \<open>ap_created\<close> is the result of \<^verbatim>\<open>createWiFiAP\<close> and \<open>address\<close> the
  result of \<^verbatim>\<open>WiFi.localIP()\<close>. When the access point cannot be created the sketch
  stays in \<^verbatim>\<open>while (true)\<close> and \<^verbatim>\<open>setup\<close> never returns: the result is \<open>None\<close>.
\<close>

definition setup_sketch :: "bool \<Rightarrow> IPAddress \<Rightarrow> sketch \<Rightarrow> (sketch \<times> event list) option" where
  "setup_sketch ap_created address s =
     (if createWifiNetwork s \<and> \<not> ap_created then None
      else
        let s1 = (if createWifiNetwork s then s else s\<lparr>theIP := address\<rparr>);
            network = (if createWifiNetwork s then [createWiFiAP]
              else [connectToWiFi, WiFi_localIP])
        in Some
          (s1\<lparr>refreshPeriodSeconds := select_refreshPeriodSeconds (cycle_period s1),
              ready_assertion_event := False\<rparr>,
           SensorHardwareSetup # network @
           [Serial_print ''View your page at http://'',
            Serial_println (print_IPAddress (theIP s1)),
            server_begin,
            TransmitI2C_particle_sensor, TransmitI2C_cycle_period, TransmitI2C_cycle_mode]))"

text \<open>
  What one call of \<^verbatim>\<open>loop\<close> meets outside the sketch. \<open>waiting\<close> has one element
  for each pass of the waiting loop made before the sensor raises the ready signal: the
  client pending at that pass, if any. \<open>bus\<close> is what the four or five calls of
  \<^verbatim>\<open>ReceiveI2C\<close> leave in the data structs. The ready signal sets
  \<^verbatim>\<open>ready_assertion_event\<close> from an interrupt: \<open>ready_before_check\<close> says that it
  came again after the flag was cleared and before the WiFi check was over,
  \<open>ready_while_connecting\<close> that it came during \<^verbatim>\<open>connectToWiFi\<close>.
\<close>

record surroundings =
  waiting :: "char option list option list"
  bus :: records
  ready_before_check :: bool
  status :: nat
  ready_while_connecting :: bool
  localIP :: IPAddress

definition wait_for_data :: "string \<Rightarrow> char option list option list \<Rightarrow> event list" where
  "wait_for_data page clients =
     concat (map (\<lambda>client.
       (case handleClientRequests page client of
          None \<Rightarrow> [] | Some x \<Rightarrow> [client_handled x]) @ [yield]) clients)"

definition receive_data :: "header \<Rightarrow> records \<Rightarrow> records \<Rightarrow> records" where
  "receive_data h from_bus d =
     d\<lparr>airData := airData from_bus,
       airQualityData := airQualityData from_bus,
       lightData := lightData from_bus,
       soundData := soundData from_bus,
       particleData :=
         (if PARTICLE_SENSOR h \<noteq> PARTICLE_SENSOR_OFF then particleData from_bus
          else particleData d)\<rparr>"

definition receive_events :: "header \<Rightarrow> event list" where
  "receive_events h =
     [ReceiveI2C_air, ReceiveI2C_air_quality, ReceiveI2C_light, ReceiveI2C_sound] @
     (if PARTICLE_SENSOR h \<noteq> PARTICLE_SENSOR_OFF then [ReceiveI2C_particle] else [])"

text \<open>Lines 195 to 207: the check of the WiFi connection at the end of \<^verbatim>\<open>loop\<close>.\<close>

definition check_WiFi :: "header \<Rightarrow> surroundings \<Rightarrow> sketch \<Rightarrow> sketch \<times> event list" where
  "check_WiFi h w s =
     (if \<not> createWifiNetwork s
      then
        (if status w \<noteq> WL_CONNECTED h
         then
           (s\<lparr>ready_assertion_event :=
                 ready_assertion_event s \<or> ready_while_connecting w,
               theIP := localIP w,
               ready_assertion_event := False\<rparr>,
            [WiFi_status,
             Serial_print ''Wifi status: '',
             Serial_println (interpret_WiFi_status h (status w)),
             connectToWiFi,
             WiFi_localIP,
             Serial_print ''View your page at http://'',
             Serial_println (print_IPAddress (localIP w))])
         else (s, [WiFi_status]))
      else (s, []))"

text \<open>
  One call of \<^verbatim>\<open>loop\<close>: the waiting loop, the readout, the page assembly and the
  WiFi check. The waiting loop makes no pass when the flag is already set; otherwise it
  makes the passes that the surroundings allow before the signal comes.
\<close>

definition waiting_passes :: "surroundings \<Rightarrow> sketch \<Rightarrow> char option list option list" where
  "waiting_passes w s = (if ready_assertion_event s then [] else waiting w)"

definition loop :: "header \<Rightarrow> surroundings \<Rightarrow> sketch \<Rightarrow> fault + sketch \<times> event list" where
  "loop h w s =
     (let served = wait_for_data (pageBuffer (bufs s)) (waiting_passes w s);
          d = receive_data h (bus w) (readings s)
      in case assembleWebPage h d (refreshPeriodSeconds s) (bufs s) of
           Inl f \<Rightarrow> Inl f
         | Inr b \<Rightarrow>
             (case check_WiFi h w
                 (s\<lparr>readings := d, bufs := b,
                    ready_assertion_event := ready_before_check w\<rparr>) of
                (s', checked) \<Rightarrow> Inr (s', served @ receive_events h @ checked)))"

subsection \<open>The text of the page\<close>

text \<open>
  What the statements of \<^verbatim>\<open>assembleWebPage\<close> append, section by section, and the
  whole page. These are the texts the theorems speak of; that \<open>assembleWebPage\<close>
  leaves them in the page buffer is proved below (\<open>assembleWebPage_result\<close>).
\<close>

definition air_data_text :: "header \<Rightarrow> records \<Rightarrow> string" where
  "air_data_text h d =
     ''<p><h2>Air Data</h2><table>'' @
     temperature_row (getTemperature h (airData d)) @
     pressure_row (airData d) @ humidity_row (airData d) @ gas_row h (airData d)"

definition air_quality_text :: "header \<Rightarrow> records \<Rightarrow> string" where
  "air_quality_text h d =
     ''<p><h2>Air Quality Data</h2>'' @
     (if AQI_accuracy (airQualityData d) = 0 then accuracy_message h (airQualityData d)
      else aqi_row (airQualityData d) @ aqi_summary_row h (airQualityData d) @
        co2_row h (airQualityData d) @ bvoc_row (airQualityData d))"

definition band_rows :: "header \<Rightarrow> SoundData_t \<Rightarrow> string" where
  "band_rows h s = concat (map (band_row h s) [0 ..< SOUND_FREQ_BANDS h])"

definition sound_text :: "header \<Rightarrow> records \<Rightarrow> string" where
  "sound_text h d =
     ''<p><h2>Sound Data</h2><table>'' @ spl_row (soundData d) @
     band_rows h (soundData d) @ peak_row (soundData d)"

definition light_text :: "records \<Rightarrow> string" where
  "light_text d =
     ''<p><h2>Light Data</h2><table>'' @ illuminance_row (lightData d) @
     white_row (lightData d)"

definition particle_text :: "header \<Rightarrow> records \<Rightarrow> string" where
  "particle_text h d =
     (if PARTICLE_SENSOR h \<noteq> PARTICLE_SENSOR_OFF
      then ''<p><h2>Air Particulate Data</h2><table>'' @
        duty_cycle_row (particleData d) @
        concentration_row (particleData d) (particle_units h)
      else [])"

definition body_text :: "header \<Rightarrow> records \<Rightarrow> string" where
  "body_text h d =
     air_data_text h d @ air_quality_text h d @ sound_text h d @ light_text d @
     particle_text h d @ ''</body></html>''"

definition page_text :: "header \<Rightarrow> records \<Rightarrow> nat \<Rightarrow> string" where
  "page_text h d refresh =
     response_header refresh @ html_head @ air_data_text h d @
     air_quality_text h d @ sound_text h d @ light_text d @ particle_text h d @
     ''</body></html>''"

text \<open>
  \<open>appends steps t\<close>: started with any buffers, the statements \<open>steps\<close> append \<open>t\<close>
  to the page buffer when it has room for \<open>t\<close>, and overflow it otherwise.
\<close>

definition appends :: "(buffers \<Rightarrow> fault + buffers) list \<Rightarrow> string \<Rightarrow> bool" where
  "appends steps t \<longleftrightarrow>
     (\<forall>b. if length (pageBuffer b) + length t < pageBuffer_size
          then \<exists>b'. run steps b = Inr b' \<and> pageBuffer b' = pageBuffer b @ t
          else run steps b = Inl pageBuffer_overflow)"

text \<open>Every line fits the line buffer, and every array read of the band loop is in range.\<close>

definition lines_fit :: "header \<Rightarrow> records \<Rightarrow> bool" where
  "lines_fit h d \<longleftrightarrow>
     length (temperature_row (getTemperature h (airData d))) < lineBuffer_size \<and>
     length (pressure_row (airData d)) < lineBuffer_size \<and>
     length (humidity_row (airData d)) < lineBuffer_size \<and>
     length (gas_row h (airData d)) < lineBuffer_size \<and>
     (if AQI_accuracy (airQualityData d) = 0
      then length (accuracy_message h (airQualityData d)) < lineBuffer_size
      else length (aqi_row (airQualityData d)) < lineBuffer_size \<and>
        length (aqi_summary_row h (airQualityData d)) < lineBuffer_size \<and>
        length (co2_row h (airQualityData d)) < lineBuffer_size \<and>
        length (bvoc_row (airQualityData d)) < lineBuffer_size) \<and>
     length (spl_row (soundData d)) < lineBuffer_size \<and>
     list_all (\<lambda>i. i < length (sound_band_mids_Hz h) \<and>
         i < length (SPL_bands_dB_int (soundData d)) \<and>
         i < length (SPL_bands_dB_fr_1dp (soundData d)) \<and>
         length (band_row h (soundData d) i) < lineBuffer_size)
       [0 ..< SOUND_FREQ_BANDS h] \<and>
     length (peak_row (soundData d)) < lineBuffer_size \<and>
     length (illuminance_row (lightData d)) < lineBuffer_size \<and>
     length (white_row (lightData d)) < lineBuffer_size \<and>
     (PARTICLE_SENSOR h = PARTICLE_SENSOR_OFF \<or>
      length (duty_cycle_row (particleData d)) < lineBuffer_size \<and>
      length (particle_units h) < unitsBuffer_size \<and>
      length (concentration_row (particleData d) (particle_units h)) < lineBuffer_size)"

subsection \<open>Ranges\<close>

text \<open>
  Modelled from the spec: the declarations of the data structs are in
  \<^verbatim>\<open>Metriful_sensor.h\<close>, which is missing, so the ranges of their fields are stated
  here and are hypotheses of the theorems. The specification fixes the number of
  fractional digits of every field: a field \<^verbatim>\<open>_fr_1dp\<close> is one decimal digit, a
  field \<^verbatim>\<open>_fr_2dp\<close> two. An integer part is bounded by the width of the integer that
  holds it: 32 bits for the two fields printed with \<^verbatim>\<open>PRIu32\<close>, 16 or 8 bits for
  the others. The band arrays have an element for each band.
\<close>

definition records_in_range :: "header \<Rightarrow> records \<Rightarrow> bool" where
  "records_in_range h d \<longleftrightarrow>
     P_Pa (airData d) < 4294967296 \<and>
     H_pc_int (airData d) < 256 \<and>
     H_pc_fr_1dp (airData d) < 10 \<and>
     G_ohm (airData d) < 4294967296 \<and>
     AQI_int (airQualityData d) < 65536 \<and>
     AQI_fr_1dp (airQualityData d) < 10 \<and>
     CO2e_int (airQualityData d) < 65536 \<and>
     CO2e_fr_1dp (airQualityData d) < 10 \<and>
     bVOC_int (airQualityData d) < 65536 \<and>
     bVOC_fr_2dp (airQualityData d) < 100 \<and>
     illum_lux_int (lightData d) < 65536 \<and>
     illum_lux_fr_2dp (lightData d) < 100 \<and>
     white (lightData d) < 65536 \<and>
     SPL_dBA_int (soundData d) < 256 \<and>
     SPL_dBA_fr_1dp (soundData d) < 10 \<and>
     SOUND_FREQ_BANDS h \<le> length (SPL_bands_dB_int (soundData d)) \<and>
     SOUND_FREQ_BANDS h \<le> length (SPL_bands_dB_fr_1dp (soundData d)) \<and>
     list_all (\<lambda>x. x < 256) (SPL_bands_dB_int (soundData d)) \<and>
     list_all (\<lambda>x. x < 10) (SPL_bands_dB_fr_1dp (soundData d)) \<and>
     peak_amp_mPa_int (soundData d) < 65536 \<and>
     peak_amp_mPa_fr_2dp (soundData d) < 100 \<and>
     duty_cycle_pc_int (particleData d) < 256 \<and>
     duty_cycle_pc_fr_2dp (particleData d) < 100 \<and>
     concentration_int (particleData d) < 65536 \<and>
     concentration_fr_2dp (particleData d) < 100"

text \<open>
  What the theorems need of the header: at most six sound bands, with a mid frequency
  of at most four digits for each; a temperature of at most three digits before and one
  after the point; and helper strings that are short enough. The unit of the
  temperature, the ohm symbol, the subscript, the air quality summary and the particle
  unit may take 31 bytes together.
\<close>

definition helpers_in_range :: "header \<Rightarrow> records \<Rightarrow> bool" where
  "helpers_in_range h d \<longleftrightarrow>
     SOUND_FREQ_BANDS h \<le> 6 \<and>
     SOUND_FREQ_BANDS h \<le> length (sound_band_mids_Hz h) \<and>
     list_all (\<lambda>f. f < 10000) (sound_band_mids_Hz h) \<and>
     T_intPart (getTemperature h (airData d)) < 256 \<and>
     T_fractionalPart (getTemperature h (airData d)) < 10 \<and>
     length (unit (getTemperature h (airData d))) + length (OHM_SYMBOL h) +
       length (SUBSCRIPT_2 h) +
       length (interpret_AQI_value h (AQI_int (airQualityData d))) +
       length (particle_units h) \<le> 31 \<and>
     length (OHM_SYMBOL h) \<le> 12 \<and>
     length (interpret_AQI_accuracy h 0) \<le> 88 \<and>
     length (particle_units h) < unitsBuffer_size"


subsection \<open>Reading the page\<close>

text \<open>
  How a reader finds a section in the page: \<open>find_after m s\<close> is the text after the
  first place where \<open>m\<close> stands in \<open>s\<close>, \<open>text_before m s\<close> the text up to that
  place. The section with a given title is what stands between its heading and the end
  of its paragraph; a page without the heading has no such section. \<open>row_labels\<close>
  lists the first cell of every table row.
\<close>

fun find_after :: "string \<Rightarrow> string \<Rightarrow> string option" where
  "find_after m [] = None"
| "find_after m (c # cs) =
     (if prefix m (c # cs) then Some (drop (length m) (c # cs)) else find_after m cs)"

fun text_before :: "string \<Rightarrow> string \<Rightarrow> string" where
  "text_before m [] = []"
| "text_before m (c # cs) = (if prefix m (c # cs) then [] else c # text_before m cs)"

definition section_of :: "string \<Rightarrow> string \<Rightarrow> string option" where
  "section_of title page =
     map_option (text_before ''</p>'') (find_after (''<p><h2>'' @ title @ ''</h2>'') page)"

fun row_labels :: "string \<Rightarrow> string list" where
  "row_labels [] = []"
| "row_labels (c # cs) =
     (if prefix ''<tr><td>'' (c # cs)
      then text_before ''</td>'' (drop 8 (c # cs)) # row_labels cs
      else row_labels cs)"

text \<open>
  The sections in the words of the specification: a table is a sequence of rows of a
  label, a value and a unit; the air quality section is either the message on the
  calibration or the table of four rows; the particle section is a table of two rows.
\<close>

definition table_row :: "string \<Rightarrow> string \<Rightarrow> string \<Rightarrow> string \<Rightarrow> string" where
  "table_row ident label val units =
     ''<tr><td>'' @ label @ ''</td><td id='' @ [CHR 0x27] @ ident @ [CHR 0x27] @ ''>'' @
     val @ ''</td><td>'' @ units @ ''</td></tr>''"

definition calibration_message :: "header \<Rightarrow> string" where
  "calibration_message h = ''<a>'' @ interpret_AQI_accuracy h 0 @ ''</a>''"

definition air_quality_table :: "header \<Rightarrow> AirQualityData_t \<Rightarrow> string" where
  "air_quality_table h q =
     ''<table>'' @
     table_row ''v2'' ''Air Quality Index''
       (dec (AQI_int q) @ ''.'' @ dec (AQI_fr_1dp q)) [] @
     table_row ''v2'' ''Air Quality Summary'' (interpret_AQI_value h (AQI_int q)) [] @
     table_row ''v2'' (''Estimated CO'' @ SUBSCRIPT_2 h)
       (dec (CO2e_int q) @ ''.'' @ dec (CO2e_fr_1dp q)) ''ppm'' @
     table_row ''v2'' ''Equivalent Breath VOC''
       (dec (bVOC_int q) @ ''.'' @ dec02 (bVOC_fr_2dp q)) ''ppm'' @
     ''</table>''"

definition particle_table :: "ParticleData_t \<Rightarrow> string \<Rightarrow> string" where
  "particle_table p units =
     ''<table>'' @
     table_row ''v5'' ''Sensor Duty Cycle''
       (dec (duty_cycle_pc_int p) @ ''.'' @ dec02 (duty_cycle_pc_fr_2dp p)) ''%'' @
     table_row ''v5'' ''Particle Concentration''
       (dec (concentration_int p) @ ''.'' @ dec02 (concentration_fr_2dp p)) units @
     ''</table>''"

text \<open>
  A helper string is plain when it has no \<^verbatim>\<open><\<close> in it, so that it cannot be taken
  for markup. \<open>clear_of m s\<close>: the text \<open>m\<close> does not stand in \<open>s\<close>, and no end of
  \<open>s\<close> is a beginning of \<open>m\<close>.
\<close>

definition plain :: "string \<Rightarrow> bool" where
  "plain s \<longleftrightarrow> CHR ''<'' \<notin> set s"

definition helpers_plain :: "header \<Rightarrow> records \<Rightarrow> bool" where
  "helpers_plain h d \<longleftrightarrow>
     plain (unit (getTemperature h (airData d))) \<and>
     plain (OHM_SYMBOL h) \<and>
     plain (SUBSCRIPT_2 h) \<and>
     plain (interpret_AQI_accuracy h 0) \<and>
     plain (interpret_AQI_value h (AQI_int (airQualityData d))) \<and>
     plain (SDS011_UNIT_SYMBOL h)"

fun clear_of :: "string \<Rightarrow> string \<Rightarrow> bool" where
  "clear_of m [] = True"
| "clear_of m (c # cs) = (\<not> prefix (c # cs) m \<and> \<not> prefix m (c # cs) \<and> clear_of m cs)"

subsection \<open>Example inputs\<close>

text \<open>
  A header and two sets of records for the examples that accompany the theorems. The
  header is one instance among many: the theorems hold for every header within the
  ranges they state. \<open>full_scale_records\<close> has the largest value of its range in
  every field.
\<close>

definition example_header :: header where
  "example_header =
     \<lparr>PARTICLE_SENSOR = PARTICLE_SENSOR_PPD42,
      SOUND_FREQ_BANDS = 6,
      sound_band_mids_Hz = [125, 250, 500, 1000, 2000, 4000],
      OHM_SYMBOL = ''ohm'',
      SUBSCRIPT_2 = ''2'',
      SDS011_UNIT_SYMBOL = ''ug/m3'',
      getTemperature = (\<lambda>a. case T_bytes a of
          i # f # _ \<Rightarrow>
            \<lparr>unit = ''C'', T_intPart = i mod 128, T_fractionalPart = f mod 10,
             isPositive = (i < 128)\<rparr>
        | _ \<Rightarrow> \<lparr>unit = ''C'', T_intPart = 0, T_fractionalPart = 0, isPositive = True\<rparr>),
      interpret_AQI_accuracy = (\<lambda>a. if a = 0
        then ''Not yet valid, self-calibration incomplete'' else ''Valid''),
      interpret_AQI_value = (\<lambda>v. if v < 100 then ''Good'' else ''Substandard''),
      WL_CONNECTED = 3,
      interpret_WiFi_status = (\<lambda>s. ''code '' @ dec s)\<rparr>"

definition full_scale_records :: records where
  "full_scale_records =
     \<lparr>airData = \<lparr>T_bytes = [255, 9], P_Pa = 4294967295, H_pc_int = 255, H_pc_fr_1dp = 9,
        G_ohm = 4294967295\<rparr>,
      airQualityData = \<lparr>AQI_int = 65535, AQI_fr_1dp = 9, CO2e_int = 65535,
        CO2e_fr_1dp = 9, bVOC_int = 65535, bVOC_fr_2dp = 99, AQI_accuracy = 3\<rparr>,
      lightData = \<lparr>illum_lux_int = 65535, illum_lux_fr_2dp = 99, white = 65535\<rparr>,
      particleData = \<lparr>duty_cycle_pc_int = 255, duty_cycle_pc_fr_2dp = 99,
        concentration_int = 65535, concentration_fr_2dp = 99\<rparr>,
      soundData = \<lparr>SPL_dBA_int = 255, SPL_dBA_fr_1dp = 9,
        SPL_bands_dB_int = [255, 255, 255, 255, 255, 255],
        SPL_bands_dB_fr_1dp = [9, 9, 9, 9, 9, 9],
        peak_amp_mPa_int = 65535, peak_amp_mPa_fr_2dp = 99\<rparr>\<rparr>"

text \<open>
  Records as a sensor that does not keep to the decimal places could send them: every
  fractional part is 255, the largest value of a byte.
\<close>

definition byte_fraction_records :: records where
  "byte_fraction_records =
     \<lparr>airData = \<lparr>T_bytes = [255, 9], P_Pa = 4294967295, H_pc_int = 255, H_pc_fr_1dp = 255,
        G_ohm = 4294967295\<rparr>,
      airQualityData = \<lparr>AQI_int = 65535, AQI_fr_1dp = 255, CO2e_int = 65535,
        CO2e_fr_1dp = 255, bVOC_int = 65535, bVOC_fr_2dp = 255, AQI_accuracy = 3\<rparr>,
      lightData = \<lparr>illum_lux_int = 65535, illum_lux_fr_2dp = 255, white = 65535\<rparr>,
      particleData = \<lparr>duty_cycle_pc_int = 255, duty_cycle_pc_fr_2dp = 255,
        concentration_int = 65535, concentration_fr_2dp = 255\<rparr>,
      soundData = \<lparr>SPL_dBA_int = 255, SPL_dBA_fr_1dp = 255,
        SPL_bands_dB_int = [255, 255, 255, 255, 255, 255],
        SPL_bands_dB_fr_1dp = [255, 255, 255, 255, 255, 255],
        peak_amp_mPa_int = 65535, peak_amp_mPa_fr_2dp = 255\<rparr>\<rparr>"

text \<open>
  Surroundings for one call of \<^verbatim>\<open>loop\<close>: a first pass without a client, a client
  that sends a complete request, a client that closes after the request line; full
  scale data on the bus; a WiFi status other than \<open>WL_CONNECTED\<close>, and the ready
  signal coming again while the sketch reconnects.
\<close>

definition example_surroundings :: surroundings where
  "example_surroundings =
     \<lparr>waiting = [None, Some (sends (''GET / HTTP/1.1'' @ CRLF @ CRLF)),
        Some (sends (''GET / HTTP/1.1'' @ CRLF))],
      bus = full_scale_records,
      ready_before_check = False,
      status = 6,
      ready_while_connecting = True,
      localIP = (192, 168, 12, 21)\<rparr>"

text \<open>The sketch after power-on, joining an existing network, before \<^verbatim>\<open>setup\<close>.\<close>

definition example_sketch :: sketch where
  "example_sketch = power_on example_header CYCLE_PERIOD_3_S False"

text \<open>The same sketch after \<^verbatim>\<open>setup\<close> has obtained an address.\<close>

definition example_started :: sketch where
  "example_started =
     example_sketch\<lparr>theIP := (192, 168, 12, 5), refreshPeriodSeconds := 3\<rparr>"

section \<open>Properties\<close>

subsection \<open>Decimal notation\<close>

lemma dec_small: "n < 10 \<Longrightarrow> dec n = [digit n]"
  by (simp add: dec.simps)

lemma dec_big: "10 \<le> n \<Longrightarrow> dec n = dec (n div 10) @ [digit (n mod 10)]"
  by (subst dec.simps) simp

lemma digit_value_digit: "k < 10 \<Longrightarrow> digit_value (digit k) = k"
proof -
  assume "k < 10"
  then have "k = 0 \<or> k = 1 \<or> k = 2 \<or> k = 3 \<or> k = 4 \<or> k = 5 \<or> k = 6 \<or> k = 7 \<or> k = 8 \<or> k = 9"
    by arith
  then show ?thesis
    by (elim disjE) (simp_all add: digit_def digit_value_def)
qed

lemma undec_append: "undec (s @ [c]) = 10 * undec s + digit_value c"
  by (simp add: undec_def)

lemma undec_dec: "undec (dec n) = n"
proof (induction n rule: dec.induct)
  case (1 n)
  show ?case
  proof (cases "n < 10")
    case True
    then show ?thesis by (simp add: dec_small undec_def digit_value_digit)
  next
    case False
    then have "undec (dec (n div 10)) = n div 10" using 1 by simp
    then show ?thesis using False by (simp add: dec_big undec_append digit_value_digit)
  qed
qed

subsection \<open>Running the statements of assembleWebPage\<close>

lemma run_append: "run (xs @ ys) s = (case run xs s of Inl e \<Rightarrow> Inl e | Inr s' \<Rightarrow> run ys s')"
  by (induction xs arbitrary: s) (auto split: sum.splits)

lemma appends_append:
  assumes "appends xs t1" and "appends ys t2"
  shows "appends (xs @ ys) (t1 @ t2)"
  unfolding appends_def
proof (intro allI)
  fix b
  show "if length (pageBuffer b) + length (t1 @ t2) < pageBuffer_size
        then \<exists>b'. run (xs @ ys) b = Inr b' \<and> pageBuffer b' = pageBuffer b @ t1 @ t2
        else run (xs @ ys) b = Inl pageBuffer_overflow"
  proof (cases "length (pageBuffer b) + length t1 < pageBuffer_size")
    case False
    then have "run xs b = Inl pageBuffer_overflow"
      using assms(1) by (simp add: appends_def)
    then show ?thesis using False by (simp add: run_append)
  next
    case True
    then obtain b1 where b1: "run xs b = Inr b1" "pageBuffer b1 = pageBuffer b @ t1"
      using assms(1) unfolding appends_def by (metis (full_types))
    show ?thesis
    proof (cases "length (pageBuffer b1) + length t2 < pageBuffer_size")
      case False
      then have "run ys b1 = Inl pageBuffer_overflow"
        using assms(2) by (simp add: appends_def)
      then show ?thesis using False b1 by (simp add: run_append)
    next
      case fits: True
      then obtain b2 where "run ys b1 = Inr b2" "pageBuffer b2 = pageBuffer b1 @ t2"
        using assms(2) unfolding appends_def by (metis (full_types))
      then show ?thesis using fits b1 by (simp add: run_append)
    qed
  qed
qed

lemma appends_strcat: "appends [strcat_pageBuffer s] s"
  by (simp add: appends_def strcat_pageBuffer_def)

lemma appends_line:
  "length s < lineBuffer_size \<Longrightarrow>
   appends [sprintf_lineBuffer s, strcat_pageBuffer_lineBuffer] s"
  by (simp add: appends_def sprintf_lineBuffer_def strcat_pageBuffer_lineBuffer_def
      strcat_pageBuffer_def)

lemma appends_strcat_Cons:
  "appends rest t \<Longrightarrow> appends (strcat_pageBuffer s # rest) (s @ t)"
  using appends_append [OF appends_strcat, of rest t s] by simp

lemma appends_line_Cons:
  "length s < lineBuffer_size \<Longrightarrow> appends rest t \<Longrightarrow>
   appends (sprintf_lineBuffer s # strcat_pageBuffer_lineBuffer # rest) (s @ t)"
  using appends_append [OF appends_line, of s rest t] by simp

lemma appends_strcpy_Cons:
  "length s < unitsBuffer_size \<Longrightarrow> appends rest t \<Longrightarrow>
   appends (strcpy_unitsBuffer s # rest) t"
  by (simp add: appends_def strcpy_unitsBuffer_def)

lemma appends_air_data:
  assumes "lines_fit h d"
  shows "appends (air_data_section h d) (air_data_text h d)"
  unfolding air_data_section_def air_data_text_def
  using assms
  by (intro appends_strcat_Cons appends_line_Cons appends_line) (simp_all add: lines_fit_def)

lemma appends_air_quality:
  assumes "lines_fit h d"
  shows "appends (air_quality_section h d) (air_quality_text h d)"
proof (cases "AQI_accuracy (airQualityData d) = 0")
  case True
  have "appends
     (strcat_pageBuffer ''<p><h2>Air Quality Data</h2>'' #
      [sprintf_lineBuffer (accuracy_message h (airQualityData d)),
       strcat_pageBuffer_lineBuffer])
     (''<p><h2>Air Quality Data</h2>'' @ accuracy_message h (airQualityData d))"
    using assms True
    by (intro appends_strcat_Cons appends_line) (simp add: lines_fit_def)
  then show ?thesis
    unfolding air_quality_section_def air_quality_text_def if_P [OF True] .
next
  case False
  have "appends
     (strcat_pageBuffer ''<p><h2>Air Quality Data</h2>'' #
      [sprintf_lineBuffer (aqi_row (airQualityData d)),
       strcat_pageBuffer_lineBuffer,
       sprintf_lineBuffer (aqi_summary_row h (airQualityData d)),
       strcat_pageBuffer_lineBuffer,
       sprintf_lineBuffer (co2_row h (airQualityData d)),
       strcat_pageBuffer_lineBuffer,
       sprintf_lineBuffer (bvoc_row (airQualityData d)),
       strcat_pageBuffer_lineBuffer])
     (''<p><h2>Air Quality Data</h2>'' @ aqi_row (airQualityData d) @
      aqi_summary_row h (airQualityData d) @ co2_row h (airQualityData d) @
      bvoc_row (airQualityData d))"
    using assms False
    by (intro appends_strcat_Cons appends_line_Cons appends_line) (simp_all add: lines_fit_def)
  then show ?thesis
    unfolding air_quality_section_def air_quality_text_def if_not_P [OF False] .
qed

lemma appends_band_read_Cons:
  assumes "i < length (sound_band_mids_Hz h)" and "i < length (SPL_bands_dB_int s)"
    and "i < length (SPL_bands_dB_fr_1dp s)"
    and "length (band_row h s i) < lineBuffer_size" and "appends rest t"
  shows "appends (band_read h s i # strcat_pageBuffer_lineBuffer # rest) (band_row h s i @ t)"
proof -
  have "band_read h s i = sprintf_lineBuffer (band_row h s i)"
    using assms by (simp add: band_read_def fun_eq_iff)
  then show ?thesis using assms by (simp add: appends_line_Cons)
qed

lemma appends_bands:
  assumes "list_all (\<lambda>i. i < length (sound_band_mids_Hz h) \<and>
         i < length (SPL_bands_dB_int s) \<and> i < length (SPL_bands_dB_fr_1dp s) \<and>
         length (band_row h s i) < lineBuffer_size) js"
    and "appends rest t"
  shows "appends (concat (map (\<lambda>i. [band_read h s i, strcat_pageBuffer_lineBuffer]) js) @ rest)
           (concat (map (band_row h s) js) @ t)"
  using assms by (induction js) (simp_all add: appends_band_read_Cons)

lemma appends_sound:
  assumes "lines_fit h d"
  shows "appends (sound_section h d) (sound_text h d)"
proof -
  have fst_part: "appends
     [strcat_pageBuffer ''<p><h2>Sound Data</h2><table>'',
      sprintf_lineBuffer (spl_row (soundData d)), strcat_pageBuffer_lineBuffer]
     (''<p><h2>Sound Data</h2><table>'' @ spl_row (soundData d))"
    using assms by (intro appends_strcat_Cons appends_line) (simp add: lines_fit_def)
  have "appends [sprintf_lineBuffer (peak_row (soundData d)), strcat_pageBuffer_lineBuffer]
          (peak_row (soundData d))"
    using assms by (intro appends_line) (simp add: lines_fit_def)
  then have snd_part: "appends (band_loop h (soundData d) @
       [sprintf_lineBuffer (peak_row (soundData d)), strcat_pageBuffer_lineBuffer])
     (band_rows h (soundData d) @ peak_row (soundData d))"
    unfolding band_loop_def band_rows_def
    using assms by (intro appends_bands) (simp_all add: lines_fit_def)
  show ?thesis
    using appends_append [OF fst_part snd_part]
    unfolding sound_section_def sound_text_def by (simp only: append_assoc)
qed

lemma appends_light:
  assumes "lines_fit h d"
  shows "appends (light_section d) (light_text d)"
  unfolding light_section_def light_text_def
  using assms
  by (intro appends_strcat_Cons appends_line_Cons appends_line) (simp_all add: lines_fit_def)

lemma appends_particle:
  assumes "lines_fit h d" and "appends rest t"
  shows "appends (particle_section h d @ rest) (particle_text h d @ t)"
proof (cases "PARTICLE_SENSOR h \<noteq> PARTICLE_SENSOR_OFF")
  case True
  have "appends
     [strcat_pageBuffer ''<p><h2>Air Particulate Data</h2><table>'',
      sprintf_lineBuffer (duty_cycle_row (particleData d)),
      strcat_pageBuffer_lineBuffer,
      strcpy_unitsBuffer (particle_units h),
      sprintf_lineBuffer (concentration_row (particleData d) (particle_units h)),
      strcat_pageBuffer_lineBuffer]
     (''<p><h2>Air Particulate Data</h2><table>'' @ duty_cycle_row (particleData d) @
      concentration_row (particleData d) (particle_units h))"
    using assms(1) True
    by (intro appends_strcat_Cons appends_line_Cons appends_strcpy_Cons appends_line)
      (simp_all add: lines_fit_def)
  then have "appends (particle_section h d) (particle_text h d)"
    unfolding particle_section_def particle_text_def if_P [OF True] .
  then show ?thesis using assms(2) by (rule appends_append)
next
  case False
  then show ?thesis
    using assms(2) unfolding particle_section_def particle_text_def
    by (simp only: if_False append_Nil)
qed

lemma appends_body:
  assumes "lines_fit h d"
  shows "appends
     (air_data_section h d @ air_quality_section h d @ sound_section h d @
      light_section d @ particle_section h d @ [strcat_pageBuffer ''</body></html>''])
     (body_text h d)"
proof -
  note tail = appends_particle [OF assms appends_strcat]
  note tail = appends_append [OF appends_light [OF assms] tail]
  note tail = appends_append [OF appends_sound [OF assms] tail]
  note tail = appends_append [OF appends_air_quality [OF assms] tail]
  note tail = appends_append [OF appends_air_data [OF assms] tail]
  then show ?thesis unfolding body_text_def .
qed

lemma assembleWebPage_result:
  assumes "lines_fit h d"
  shows "if length (page_text h d r) < pageBuffer_size
         then \<exists>b'. assembleWebPage h d r b = Inr b' \<and> pageBuffer b' = page_text h d r
         else assembleWebPage h d r b = Inl pageBuffer_overflow"
proof -
  let ?rest = "air_data_section h d @ air_quality_section h d @ sound_section h d @
      light_section d @ particle_section h d @ [strcat_pageBuffer ''</body></html>'']"
  let ?hdr = "response_header r"
  let ?b2 = "b\<lparr>pageBuffer := ?hdr @ html_head\<rparr>"
  have pt: "page_text h d r = ?hdr @ html_head @ body_text h d"
    by (simp only: page_text_def body_text_def)
  have unf: "assembleWebPage h d r b =
      (case run [sprintf_pageBuffer ?hdr, strcat_pageBuffer html_head] b of
         Inl e \<Rightarrow> Inl e | Inr s' \<Rightarrow> run ?rest s')"
    unfolding assembleWebPage_def by (rule run_append)
  have two: "run [sprintf_pageBuffer ?hdr, strcat_pageBuffer html_head] b =
      (if length ?hdr + length html_head < pageBuffer_size then Inr ?b2
       else Inl pageBuffer_overflow)"
    by (simp add: sprintf_pageBuffer_def strcat_pageBuffer_def)
  have rem: "if length (pageBuffer ?b2) + length (body_text h d) < pageBuffer_size
      then \<exists>b'. run ?rest ?b2 = Inr b' \<and> pageBuffer b' = pageBuffer ?b2 @ body_text h d
      else run ?rest ?b2 = Inl pageBuffer_overflow"
    using appends_body [OF assms] unfolding appends_def by blast
  show ?thesis
  proof (cases "length ?hdr + length html_head < pageBuffer_size")
    case False
    then show ?thesis unfolding unf two by (simp add: pt)
  next
    case True
    then show ?thesis using rem unfolding unf two by (auto simp: pt split: if_splits)
  qed
qed

subsection \<open>The size of the page\<close>

lemma length_dec: "n < 10 ^ k \<Longrightarrow> 0 < k \<Longrightarrow> length (dec n) \<le> k"
proof (induction k arbitrary: n)
  case 0
  then show ?case by simp
next
  case (Suc k)
  show ?case
  proof (cases "n < 10")
    case True
    then show ?thesis by (simp add: dec_small)
  next
    case False
    then have k: "0 < k" using Suc.prems by (cases k) auto
    have "n div 10 < 10 ^ k" using Suc.prems by (simp add: less_mult_imp_div_less mult.commute)
    then have "length (dec (n div 10)) \<le> k" using Suc.IH k by blast
    then show ?thesis using False by (simp add: dec_big)
  qed
qed

lemma length_dec_1: "n < 10 \<Longrightarrow> length (dec n) = 1"
  by (simp add: dec_small)

lemma length_dec_2: "n < 100 \<Longrightarrow> length (dec n) \<le> 2"
  using length_dec [of n 2] by simp

lemma length_dec_3: "n < 256 \<Longrightarrow> length (dec n) \<le> 3"
  using length_dec [of n 3] by simp

lemma length_dec_4: "n < 10000 \<Longrightarrow> length (dec n) \<le> 4"
  using length_dec [of n 4] by simp

lemma length_dec_5: "n < 65536 \<Longrightarrow> length (dec n) \<le> 5"
  using length_dec [of n 5] by simp

lemma length_dec_10: "n < 4294967296 \<Longrightarrow> length (dec n) \<le> 10"
  using length_dec [of n 10] by simp

lemma length_dec02: "n < 100 \<Longrightarrow> length (dec02 n) = 2"
proof (cases "n < 10")
  case True
  then show ?thesis by (simp add: dec02_def dec_small)
next
  case False
  moreover assume "n < 100"
  ultimately have "n div 10 < 10" by simp
  then show ?thesis using False by (simp add: dec02_def dec_big dec_small)
qed

lemma length_response_header: "length (response_header r) = 74 + length (dec r)"
  by (simp add: response_header_def CRLF_def)

lemma length_html_head: "length html_head = 507"
  by (simp add: html_head_def)

lemma length_temperature_row:
  "length (temperature_row t) =
     56 + (if isPositive t then 0 else 1) + length (dec (T_intPart t)) +
     length (dec (T_fractionalPart t)) + length (unit t)"
  by (simp add: temperature_row_def)

lemma length_pressure_row: "length (pressure_row a) = 54 + length (dec (P_Pa a))"
  by (simp add: pressure_row_def)

lemma length_humidity_row:
  "length (humidity_row a) = 54 + length (dec (H_pc_int a)) + length (dec (H_pc_fr_1dp a))"
  by (simp add: humidity_row_def)

lemma length_gas_row:
  "length (gas_row h a) = 77 + length (dec (G_ohm a)) + length (OHM_SYMBOL h)"
  by (simp add: gas_row_def)

lemma length_accuracy_message:
  "length (accuracy_message h q) = 11 + length (interpret_AQI_accuracy h (AQI_accuracy q))"
  by (simp add: accuracy_message_def)

lemma length_aqi_row:
  "length (aqi_row q) = 69 + length (dec (AQI_int q)) + length (dec (AQI_fr_1dp q))"
  by (simp add: aqi_row_def)

lemma length_aqi_summary_row:
  "length (aqi_summary_row h q) = 63 + length (interpret_AQI_value h (AQI_int q))"
  by (simp add: aqi_summary_row_def)

lemma length_co2_row:
  "length (co2_row h q) =
     60 + length (SUBSCRIPT_2 h) + length (dec (CO2e_int q)) + length (dec (CO2e_fr_1dp q))"
  by (simp add: co2_row_def)

lemma length_bvoc_row:
  "length (bvoc_row q) = 81 + length (dec (bVOC_int q)) + length (dec02 (bVOC_fr_2dp q))"
  by (simp add: bvoc_row_def)

lemma length_spl_row:
  "length (spl_row s) = 79 + length (dec (SPL_dBA_int s)) + length (dec (SPL_dBA_fr_1dp s))"
  by (simp add: spl_row_def)

lemma length_band_row:
  "length (band_row h s i) =
     72 + length (dec (i + 1)) + length (dec (sound_band_mids_Hz h ! i)) +
     length (dec (SPL_bands_dB_int s ! i)) + length (dec (SPL_bands_dB_fr_1dp s ! i))"
  by (simp add: band_row_def)

lemma length_peak_row:
  "length (peak_row s) =
     80 + length (dec (peak_amp_mPa_int s)) + length (dec02 (peak_amp_mPa_fr_2dp s))"
  by (simp add: peak_row_def)

lemma length_illuminance_row:
  "length (illuminance_row l) =
     59 + length (dec (illum_lux_int l)) + length (dec02 (illum_lux_fr_2dp l))"
  by (simp add: illuminance_row_def)

lemma length_white_row: "length (white_row l) = 73 + length (dec (white l))"
  by (simp add: white_row_def)

lemma length_duty_cycle_row:
  "length (duty_cycle_row p) =
     63 + length (dec (duty_cycle_pc_int p)) + length (dec02 (duty_cycle_pc_fr_2dp p))"
  by (simp add: duty_cycle_row_def)

lemma length_concentration_row:
  "length (concentration_row p u) =
     79 + length (dec (concentration_int p)) + length (dec02 (concentration_fr_2dp p)) +
     length u"
  by (simp add: concentration_row_def)


lemma length_concat_map_le:
  "(\<And>j. j \<in> set js \<Longrightarrow> length (f j) \<le> k) \<Longrightarrow> length (concat (map f js)) \<le> k * length js"
  by (induction js) (simp_all add: add_mono)

lemma length_band_row_le:
  assumes "records_in_range h d" and "helpers_in_range h d" and "i < SOUND_FREQ_BANDS h"
  shows "length (band_row h (soundData d) i) \<le> 81"
proof -
  have i: "i + 1 < 10" "i < length (sound_band_mids_Hz h)"
    "i < length (SPL_bands_dB_int (soundData d))"
    "i < length (SPL_bands_dB_fr_1dp (soundData d))"
    using assms by (simp_all add: records_in_range_def helpers_in_range_def)
  have "sound_band_mids_Hz h ! i < 10000" "SPL_bands_dB_int (soundData d) ! i < 256"
    "SPL_bands_dB_fr_1dp (soundData d) ! i < 10"
    using assms(1,2) i by (simp_all add: records_in_range_def helpers_in_range_def list_all_length)
  then have "length (dec (sound_band_mids_Hz h ! i)) \<le> 4"
    "length (dec (SPL_bands_dB_int (soundData d) ! i)) \<le> 3"
    "length (dec (SPL_bands_dB_fr_1dp (soundData d) ! i)) = 1"
    by (simp_all add: length_dec_4 length_dec_3 length_dec_1)
  moreover have "length (dec (i + 1)) = 1"
    using i(1) by (rule length_dec_1)
  ultimately show ?thesis by (simp add: length_band_row)
qed

lemma length_band_rows_le:
  assumes "records_in_range h d" and "helpers_in_range h d"
  shows "length (band_rows h (soundData d)) \<le> 486"
proof -
  have "length (band_rows h (soundData d)) \<le> 81 * length [0 ..< SOUND_FREQ_BANDS h]"
    unfolding band_rows_def
    by (rule length_concat_map_le) (simp add: length_band_row_le [OF assms])
  moreover have "SOUND_FREQ_BANDS h \<le> 6"
    using assms(2) by (simp add: helpers_in_range_def)
  ultimately show ?thesis by simp
qed

lemma lines_fit_in_range:
  assumes "records_in_range h d" and "helpers_in_range h d"
  shows "lines_fit h d"
proof -
  note r = assms(1) [unfolded records_in_range_def]
  note p = assms(2) [unfolded helpers_in_range_def]
  have air: "length (temperature_row (getTemperature h (airData d))) < lineBuffer_size"
    "length (pressure_row (airData d)) < lineBuffer_size"
    "length (humidity_row (airData d)) < lineBuffer_size"
    "length (gas_row h (airData d)) < lineBuffer_size"
    using r p
      length_dec_3 [of "T_intPart (getTemperature h (airData d))"]
      length_dec_1 [of "T_fractionalPart (getTemperature h (airData d))"]
      length_dec_10 [of "P_Pa (airData d)"] length_dec_10 [of "G_ohm (airData d)"]
      length_dec_3 [of "H_pc_int (airData d)"] length_dec_1 [of "H_pc_fr_1dp (airData d)"]
    by (simp_all add: lineBuffer_size_def length_temperature_row length_pressure_row
        length_humidity_row length_gas_row)
  have msg: "AQI_accuracy (airQualityData d) = 0 \<Longrightarrow>
      length (accuracy_message h (airQualityData d)) < lineBuffer_size"
    using p by (simp add: lineBuffer_size_def length_accuracy_message)
  have aq: "length (aqi_row (airQualityData d)) < lineBuffer_size"
    "length (aqi_summary_row h (airQualityData d)) < lineBuffer_size"
    "length (co2_row h (airQualityData d)) < lineBuffer_size"
    "length (bvoc_row (airQualityData d)) < lineBuffer_size"
    using r p
      length_dec_5 [of "AQI_int (airQualityData d)"]
      length_dec_1 [of "AQI_fr_1dp (airQualityData d)"]
      length_dec_5 [of "CO2e_int (airQualityData d)"]
      length_dec_1 [of "CO2e_fr_1dp (airQualityData d)"]
      length_dec_5 [of "bVOC_int (airQualityData d)"]
      length_dec02 [of "bVOC_fr_2dp (airQualityData d)"]
    by (simp_all add: lineBuffer_size_def length_aqi_row length_aqi_summary_row
        length_co2_row length_bvoc_row)
  have sound: "length (spl_row (soundData d)) < lineBuffer_size"
    "length (peak_row (soundData d)) < lineBuffer_size"
    using r
      length_dec_3 [of "SPL_dBA_int (soundData d)"]
      length_dec_1 [of "SPL_dBA_fr_1dp (soundData d)"]
      length_dec_5 [of "peak_amp_mPa_int (soundData d)"]
      length_dec02 [of "peak_amp_mPa_fr_2dp (soundData d)"]
    by (simp_all add: lineBuffer_size_def length_spl_row length_peak_row)
  have bands: "list_all (\<lambda>i. i < length (sound_band_mids_Hz h) \<and>
         i < length (SPL_bands_dB_int (soundData d)) \<and>
         i < length (SPL_bands_dB_fr_1dp (soundData d)) \<and>
         length (band_row h (soundData d) i) < lineBuffer_size)
       [0 ..< SOUND_FREQ_BANDS h]"
    unfolding list_all_iff
  proof
    fix i assume "i \<in> set [0 ..< SOUND_FREQ_BANDS h]"
    then have i: "i < SOUND_FREQ_BANDS h" by simp
    have "length (band_row h (soundData d) i) \<le> 81"
      using assms i by (rule length_band_row_le)
    then show "i < length (sound_band_mids_Hz h) \<and>
         i < length (SPL_bands_dB_int (soundData d)) \<and>
         i < length (SPL_bands_dB_fr_1dp (soundData d)) \<and>
         length (band_row h (soundData d) i) < lineBuffer_size"
      using r p i by (simp add: lineBuffer_size_def)
  qed
  have light: "length (illuminance_row (lightData d)) < lineBuffer_size"
    "length (white_row (lightData d)) < lineBuffer_size"
    using r
      length_dec_5 [of "illum_lux_int (lightData d)"]
      length_dec02 [of "illum_lux_fr_2dp (lightData d)"]
      length_dec_5 [of "white (lightData d)"]
    by (simp_all add: lineBuffer_size_def length_illuminance_row length_white_row)
  have particle: "length (duty_cycle_row (particleData d)) < lineBuffer_size"
    "length (particle_units h) < unitsBuffer_size"
    "length (concentration_row (particleData d) (particle_units h)) < lineBuffer_size"
    using r p
      length_dec_3 [of "duty_cycle_pc_int (particleData d)"]
      length_dec02 [of "duty_cycle_pc_fr_2dp (particleData d)"]
      length_dec_5 [of "concentration_int (particleData d)"]
      length_dec02 [of "concentration_fr_2dp (particleData d)"]
    by (simp_all add: lineBuffer_size_def unitsBuffer_size_def length_duty_cycle_row
        length_concentration_row)
  show ?thesis
    unfolding lines_fit_def
    using air msg aq sound bands light particle by simp
qed

lemma length_air_data_text_le:
  assumes "records_in_range h d" and "helpers_in_range h d"
  shows "length (air_data_text h d) \<le>
    297 + length (unit (getTemperature h (airData d))) + length (OHM_SYMBOL h)"
  using assms [unfolded records_in_range_def helpers_in_range_def]
    length_dec_3 [of "T_intPart (getTemperature h (airData d))"]
    length_dec_1 [of "T_fractionalPart (getTemperature h (airData d))"]
    length_dec_10 [of "P_Pa (airData d)"] length_dec_10 [of "G_ohm (airData d)"]
    length_dec_3 [of "H_pc_int (airData d)"] length_dec_1 [of "H_pc_fr_1dp (airData d)"]
  by (simp add: air_data_text_def length_temperature_row length_pressure_row
      length_humidity_row length_gas_row)

lemma length_air_quality_text_le:
  assumes "records_in_range h d" and "helpers_in_range h d"
  shows "length (air_quality_text h d) \<le>
    320 + length (SUBSCRIPT_2 h) + length (interpret_AQI_value h (AQI_int (airQualityData d)))"
  using assms [unfolded records_in_range_def helpers_in_range_def]
    length_dec_5 [of "AQI_int (airQualityData d)"]
    length_dec_1 [of "AQI_fr_1dp (airQualityData d)"]
    length_dec_5 [of "CO2e_int (airQualityData d)"]
    length_dec_1 [of "CO2e_fr_1dp (airQualityData d)"]
    length_dec_5 [of "bVOC_int (airQualityData d)"]
    length_dec02 [of "bVOC_fr_2dp (airQualityData d)"]
  by (simp add: air_quality_text_def length_accuracy_message length_aqi_row
      length_aqi_summary_row length_co2_row length_bvoc_row)

lemma length_sound_text_le:
  assumes "records_in_range h d" and "helpers_in_range h d"
  shows "length (sound_text h d) \<le> 685"
  using assms(1) [unfolded records_in_range_def] length_band_rows_le [OF assms]
    length_dec_3 [of "SPL_dBA_int (soundData d)"]
    length_dec_1 [of "SPL_dBA_fr_1dp (soundData d)"]
    length_dec_5 [of "peak_amp_mPa_int (soundData d)"]
    length_dec02 [of "peak_amp_mPa_fr_2dp (soundData d)"]
  by (simp add: sound_text_def length_spl_row length_peak_row)

lemma length_light_text_le:
  assumes "records_in_range h d"
  shows "length (light_text d) \<le> 173"
  using assms [unfolded records_in_range_def]
    length_dec_5 [of "illum_lux_int (lightData d)"]
    length_dec02 [of "illum_lux_fr_2dp (lightData d)"]
    length_dec_5 [of "white (lightData d)"]
  by (simp add: light_text_def length_illuminance_row length_white_row)

lemma length_particle_text_le:
  assumes "records_in_range h d"
  shows "length (particle_text h d) \<le> 193 + length (particle_units h)"
  using assms [unfolded records_in_range_def]
    length_dec_3 [of "duty_cycle_pc_int (particleData d)"]
    length_dec02 [of "duty_cycle_pc_fr_2dp (particleData d)"]
    length_dec_5 [of "concentration_int (particleData d)"]
    length_dec02 [of "concentration_fr_2dp (particleData d)"]
  by (simp add: particle_text_def length_duty_cycle_row length_concentration_row)

lemma length_page_text_le:
  assumes "records_in_range h d" and "helpers_in_range h d" and "r < 65536"
  shows "length (page_text h d r) < pageBuffer_size"
proof -
  have "length (unit (getTemperature h (airData d))) + length (OHM_SYMBOL h) +
       length (SUBSCRIPT_2 h) +
       length (interpret_AQI_value h (AQI_int (airQualityData d))) +
       length (particle_units h) \<le> 31"
    using assms(2) by (simp add: helpers_in_range_def)
  then show ?thesis
    using length_air_data_text_le [OF assms(1,2)] length_air_quality_text_le [OF assms(1,2)]
      length_sound_text_le [OF assms(1,2)] length_light_text_le [OF assms(1)]
      length_particle_text_le [OF assms(1)] length_dec_5 [OF assms(3)]
    by (simp add: page_text_def pageBuffer_size_def length_response_header length_html_head)
qed

lemma assembleWebPage_in_range:
  assumes "records_in_range h d" and "helpers_in_range h d" and "r < 65536"
  shows "\<exists>b'. assembleWebPage h d r b = Inr b' \<and> pageBuffer b' = page_text h d r"
  using assembleWebPage_result [OF lines_fit_in_range [OF assms(1,2)], of r b]
    length_page_text_le [OF assms]
  by simp

lemma buffers_overwritten:
  "b\<lparr>pageBuffer := p, lineBuffer := l\<rparr> = \<lparr>lineBuffer = l, pageBuffer = p\<rparr>"
  by (cases b) simp

lemma run_first_four:
  "run (sprintf_pageBuffer s # strcat_pageBuffer t # strcat_pageBuffer u #
        sprintf_lineBuffer l # rest) b =
     (if length s < pageBuffer_size \<and> length s + length t < pageBuffer_size \<and>
         length s + length t + length u < pageBuffer_size
      then (if length l < lineBuffer_size
            then run rest \<lparr>lineBuffer = l, pageBuffer = s @ t @ u\<rparr>
            else Inl lineBuffer_overflow)
      else Inl pageBuffer_overflow)"
  by (simp add: sprintf_pageBuffer_def strcat_pageBuffer_def sprintf_lineBuffer_def
      buffers_overwritten)

lemma assembleWebPage_any_buffers:
  "assembleWebPage h d r b1 = assembleWebPage h d r b2"
  unfolding assembleWebPage_def air_data_section_def
  by (simp only: append_Cons append_Nil run_first_four)

lemma page_text_shape:
  "\<exists>body. page_text h d refresh = response_header refresh @ body \<and>
     prefix ''<!DOCTYPE HTML><html>'' body \<and> suffix ''</body></html>'' body"
proof -
  let ?body = "html_head @ air_data_text h d @ air_quality_text h d @ sound_text h d @
     light_text d @ particle_text h d @ ''</body></html>''"
  have "prefix ''<!DOCTYPE HTML><html>'' html_head"
    by (simp add: html_head_def)
  then have "prefix ''<!DOCTYPE HTML><html>'' ?body"
    by (rule prefix_prefix)
  moreover have "suffix ''</body></html>'' ?body"
    unfolding suffix_def
    by (rule exI [of _ "html_head @ air_data_text h d @ air_quality_text h d @
      sound_text h d @ light_text d @ particle_text h d"]) (simp only: append_assoc)
  ultimately show ?thesis
    unfolding page_text_def by blast
qed

subsection \<open>The example inputs are in range\<close>

lemma full_scale_in_range:
  "records_in_range example_header full_scale_records"
  by (simp add: records_in_range_def example_header_def full_scale_records_def)

lemma full_scale_helpers_in_range:
  "helpers_in_range example_header full_scale_records"
  by (simp add: helpers_in_range_def example_header_def full_scale_records_def
      particle_units_def unitsBuffer_size_def)

lemma zero_in_range:
  "records_in_range example_header (zero_records example_header)"
  by (simp add: records_in_range_def example_header_def zero_records_def list_all_iff)

lemma zero_helpers_in_range:
  "helpers_in_range example_header (zero_records example_header)"
  by (simp add: helpers_in_range_def example_header_def zero_records_def
      particle_units_def unitsBuffer_size_def)

subsection \<open>Fractional parts beyond their decimal places\<close>

text \<open>
  The fractional parts are printed with \<^verbatim>\<open>%u\<close> and \<^verbatim>\<open>%02u\<close> as they come.
  The bound on the size of the page rests on their decimal places: with the example
  header and a byte of 255 in every fractional part each line still fits the line
  buffer, but the page has 2309 characters and the page buffer overflows.
\<close>

lemma dec_values:
  "dec 255 = ''255''" "dec 65535 = ''65535''" "dec 4294967295 = ''4294967295''"
  "dec 127 = ''127''" "dec 9 = ''9''"
  "dec 125 = ''125''" "dec 250 = ''250''" "dec 500 = ''500''" "dec 1000 = ''1000''"
  "dec 2000 = ''2000''" "dec 4000 = ''4000''"
  "dec (Suc 0) = ''1''" "dec (Suc (Suc 0)) = ''2''" "dec 3 = ''3''" "dec 4 = ''4''" "dec 5 = ''5''" "dec 6 = ''6''"
  by (simp_all add: dec_small dec_big digit_def)

lemma upt_6: "[0 ..< 6] = [0, 1, 2, 3, 4, 5]"
  by (simp add: upt_rec)

lemma byte_fraction_lines_fit: "lines_fit example_header byte_fraction_records"
  by (simp add: lines_fit_def example_header_def byte_fraction_records_def upt_6
      lineBuffer_size_def unitsBuffer_size_def particle_units_def
      length_temperature_row length_pressure_row length_humidity_row length_gas_row
      length_aqi_row length_aqi_summary_row length_co2_row length_bvoc_row length_spl_row
      length_band_row length_peak_row length_illuminance_row length_white_row
      length_duty_cycle_row length_concentration_row dec02_def dec_values)

lemma byte_fraction_length:
  "length (page_text example_header byte_fraction_records 65535) = 2309"
  by (simp add: page_text_def air_data_text_def air_quality_text_def sound_text_def
      band_rows_def light_text_def particle_text_def
      example_header_def byte_fraction_records_def upt_6 particle_units_def
      length_response_header length_html_head
      length_temperature_row length_pressure_row length_humidity_row length_gas_row
      length_aqi_row length_aqi_summary_row length_co2_row length_bvoc_row length_spl_row
      length_band_row length_peak_row length_illuminance_row length_white_row
      length_duty_cycle_row length_concentration_row dec02_def dec_values)

lemma byte_fraction_overflow:
  "assembleWebPage example_header byte_fraction_records 65535 b = Inl pageBuffer_overflow"
  using assembleWebPage_result [OF byte_fraction_lines_fit, of 65535 b]
  by (simp add: byte_fraction_length pageBuffer_size_def)

subsection \<open>The request loop\<close>

lemma line_end_next_iff:
  "line_end_next s \<longleftrightarrow>
     (\<exists>between after. s = between @ [CHR 0x0A] @ after \<and> set between \<subseteq> {CHR 0x0D})"
proof (induction s)
  case Nil
  then show ?case by simp
next
  case (Cons c s)
  show ?case
  proof
    assume "line_end_next (c # s)"
    then consider "c = CHR 0x0A" | "c = CHR 0x0D" "line_end_next s" by auto
    then show "\<exists>between after. c # s = between @ [CHR 0x0A] @ after \<and> set between \<subseteq> {CHR 0x0D}"
    proof cases
      case 1
      then have "c # s = [] @ [CHR 0x0A] @ s \<and> set ([] :: string) \<subseteq> {CHR 0x0D}" by simp
      then show ?thesis by blast
    next
      case 2
      then obtain between after where "s = between @ [CHR 0x0A] @ after" "set between \<subseteq> {CHR 0x0D}"
        using Cons.IH by blast
      then have "c # s = (c # between) @ [CHR 0x0A] @ after \<and> set (c # between) \<subseteq> {CHR 0x0D}"
        using 2(1) by simp
      then show ?thesis by blast
    qed
  next
    assume "\<exists>between after. c # s = between @ [CHR 0x0A] @ after \<and> set between \<subseteq> {CHR 0x0D}"
    then obtain between after where eq: "c # s = between @ [CHR 0x0A] @ after"
      and cr: "set between \<subseteq> {CHR 0x0D}" by blast
    show "line_end_next (c # s)"
    proof (cases between)
      case Nil
      then show ?thesis using eq by simp
    next
      case (Cons x xs)
      then have "c = CHR 0x0D" "s = xs @ [CHR 0x0A] @ after" "set xs \<subseteq> {CHR 0x0D}"
        using eq cr by auto
      then show ?thesis using Cons.IH by auto
    qed
  qed
qed

lemma empty_line_observed_Nil: "\<not> empty_line_observed []"
  by (simp add: empty_line_observed_def)

lemma empty_line_observed_Cons:
  "empty_line_observed (c # s) \<longleftrightarrow> c = CHR 0x0A \<and> line_end_next s \<or> empty_line_observed s"
proof
  assume "empty_line_observed (c # s)"
  then obtain before between after where eq: "c # s = before @ [CHR 0x0A] @ between @ [CHR 0x0A] @ after"
    and cr: "set between \<subseteq> {CHR 0x0D}"
    unfolding empty_line_observed_def by blast
  show "c = CHR 0x0A \<and> line_end_next s \<or> empty_line_observed s"
  proof (cases before)
    case Nil
    then have "c = CHR 0x0A" "s = between @ [CHR 0x0A] @ after" using eq by simp_all
    then show ?thesis using cr line_end_next_iff by blast
  next
    case (Cons x xs)
    then have "s = xs @ [CHR 0x0A] @ between @ [CHR 0x0A] @ after" using eq by simp
    then show ?thesis using cr unfolding empty_line_observed_def by blast
  qed
next
  assume "c = CHR 0x0A \<and> line_end_next s \<or> empty_line_observed s"
  then consider "c = CHR 0x0A" "line_end_next s" | "empty_line_observed s" by blast
  then show "empty_line_observed (c # s)"
  proof cases
    case 1
    then obtain between after where "s = between @ [CHR 0x0A] @ after" "set between \<subseteq> {CHR 0x0D}"
      using line_end_next_iff by blast
    then have "c # s = [] @ [CHR 0x0A] @ between @ [CHR 0x0A] @ after \<and> set between \<subseteq> {CHR 0x0D}"
      using 1(1) by simp
    then show ?thesis unfolding empty_line_observed_def by blast
  next
    case 2
    then obtain before between after where "s = before @ [CHR 0x0A] @ between @ [CHR 0x0A] @ after"
      "set between \<subseteq> {CHR 0x0D}"
      unfolding empty_line_observed_def by blast
    then have "c # s = (c # before) @ [CHR 0x0A] @ between @ [CHR 0x0A] @ after \<and> set between \<subseteq> {CHR 0x0D}"
      by simp
    then show ?thesis unfolding empty_line_observed_def by blast
  qed
qed

lemma received_simps:
  "received [] = []" "received (None # ps) = received ps"
  "received (Some c # ps) = c # received ps"
  by (simp_all add: received_def)

lemma received_sends: "received (sends s) = s"
  by (induction s) (simp_all add: sends_def received_def)

lemma request_loop_iff:
  "request_loop page blankLine ps =
     (if blankLine \<and> line_end_next (received ps) \<or> empty_line_observed (received ps)
      then Some page else None)"
  by (induction page blankLine ps rule: request_loop.induct)
    (auto simp: received_simps empty_line_observed_Nil empty_line_observed_Cons)

lemma handleClientRequests_complete_request:
  "handleClientRequests page (Some (sends (''GET / HTTP/1.1'' @ CRLF @ CRLF))) =
     Some \<lparr>sent = Some page, stopped = True\<rparr>"
  by (simp add: handleClientRequests_def sends_def CRLF_def)

lemma handleClientRequests_request_line_only:
  "handleClientRequests page (Some (sends (''GET / HTTP/1.1'' @ CRLF))) =
     Some \<lparr>sent = None, stopped = True\<rparr>"
  by (simp add: handleClientRequests_def sends_def CRLF_def)

lemma empty_line_in_complete_request:
  "empty_line_observed (''GET / HTTP/1.1'' @ CRLF @ CRLF) \<and>
   \<not> empty_line_observed (''GET / HTTP/1.1'' @ CRLF)"
  by (simp add: CRLF_def empty_line_observed_Cons empty_line_observed_Nil)

subsection \<open>setup and loop\<close>

lemma setup_example:
  "setup_sketch ap (192, 168, 12, 5) example_sketch =
     Some (example_started,
       [SensorHardwareSetup, connectToWiFi, WiFi_localIP,
        Serial_print ''View your page at http://'', Serial_println ''192.168.12.5'',
        server_begin,
        TransmitI2C_particle_sensor, TransmitI2C_cycle_period, TransmitI2C_cycle_mode])"
  by (simp add: setup_sketch_def example_sketch_def example_started_def power_on_def
      select_refreshPeriodSeconds_def print_IPAddress_def dec_small dec_big digit_def)

lemma setup_leaves_page_empty:
  assumes "setup_sketch ap ip (power_on h period create) = Some (s, tr)"
  shows "pageBuffer (bufs s) = []"
  using assms
  by (auto simp: setup_sketch_def power_on_def Let_def split: if_splits)

lemma page_text_not_empty: "page_text h d r \<noteq> []"
  by (simp add: page_text_def response_header_def)

lemma wait_for_data_events:
  "WiFi_status \<notin> set (wait_for_data page clients) \<and>
   connectToWiFi \<notin> set (wait_for_data page clients)"
  by (induction clients) (auto simp: wait_for_data_def split: option.splits)

lemma receive_events_events:
  "WiFi_status \<notin> set (receive_events h) \<and> connectToWiFi \<notin> set (receive_events h)"
  by (simp add: receive_events_def)

lemma loop_in_range:
  assumes "records_in_range h (receive_data h (bus w) (readings s))"
    and "helpers_in_range h (receive_data h (bus w) (readings s))"
    and "refreshPeriodSeconds s < 65536"
  shows "\<exists>b. pageBuffer b =
           page_text h (receive_data h (bus w) (readings s)) (refreshPeriodSeconds s) \<and>
         loop h w s =
           Inr (fst (check_WiFi h w
                  (s\<lparr>readings := receive_data h (bus w) (readings s), bufs := b,
                     ready_assertion_event := ready_before_check w\<rparr>)),
                wait_for_data (pageBuffer (bufs s)) (waiting_passes w s) @
                receive_events h @
                snd (check_WiFi h w
                  (s\<lparr>readings := receive_data h (bus w) (readings s), bufs := b,
                     ready_assertion_event := ready_before_check w\<rparr>)))"
proof -
  obtain b where "assembleWebPage h (receive_data h (bus w) (readings s))
      (refreshPeriodSeconds s) (bufs s) = Inr b"
    and "pageBuffer b =
      page_text h (receive_data h (bus w) (readings s)) (refreshPeriodSeconds s)"
    using assembleWebPage_in_range [OF assms] by blast
  then show ?thesis
    by (intro exI [of _ b]) (simp add: loop_def Let_def split: prod.splits)
qed

lemma example_received:
  "receive_data example_header (bus example_surroundings) (readings example_started) =
     full_scale_records"
  by (simp add: receive_data_def example_header_def example_surroundings_def
      example_started_def example_sketch_def power_on_def zero_records_def
      full_scale_records_def)

lemma example_wait:
  "wait_for_data (pageBuffer (bufs example_started))
       (waiting_passes example_surroundings example_started) =
     [yield,
      client_handled \<lparr>sent = Some [], stopped = True\<rparr>, yield,
      client_handled \<lparr>sent = None, stopped = True\<rparr>, yield]"
  by (simp add: wait_for_data_def waiting_passes_def example_surroundings_def
      example_started_def example_sketch_def power_on_def
      handleClientRequests_def sends_def CRLF_def)

subsection \<open>Finding the sections of the page\<close>

lemma clear_of_no_prefix:
  assumes "clear_of m (c # cs)"
  shows "\<not> prefix m ((c # cs) @ t)"
proof
  have n: "\<not> prefix (c # cs) m" "\<not> prefix m (c # cs)"
    using assms by simp_all
  assume "prefix m ((c # cs) @ t)"
  then consider "prefix m (c # cs)" | us where "m = (c # cs) @ us"
    unfolding prefix_append by blast
  then show False
    using n by cases simp_all
qed

lemma find_after_clear:
  "clear_of m s \<Longrightarrow> find_after m (s @ t) = find_after m t"
proof (induction s)
  case Nil
  then show ?case by simp
next
  case (Cons c cs)
  then have "\<not> prefix (c # cs) m" "\<not> prefix m (c # cs)" "clear_of m cs" by simp_all
  moreover have "\<not> prefix m ((c # cs) @ t)"
  proof
    assume "prefix m ((c # cs) @ t)"
    then consider "prefix m (c # cs)" | us where "m = (c # cs) @ us"
      unfolding prefix_append by blast
    then show False
      using \<open>\<not> prefix (c # cs) m\<close> \<open>\<not> prefix m (c # cs)\<close> by cases simp_all
  qed
  ultimately show ?case using Cons.IH by simp
qed

lemma find_after_here: "m \<noteq> [] \<Longrightarrow> find_after m (m @ t) = Some t"
  by (cases m) simp_all

lemma find_after_none: "clear_of m s \<Longrightarrow> find_after m s = None"
  using find_after_clear [of m s "[]"] by simp

lemma text_before_clear:
  "clear_of m s \<Longrightarrow> m \<noteq> [] \<Longrightarrow> text_before m (s @ m @ t) = s"
proof (induction s)
  case Nil
  then show ?case by (cases m) simp_all
next
  case (Cons c cs)
  then have "\<not> prefix (c # cs) m" "\<not> prefix m (c # cs)" "clear_of m cs" by simp_all
  moreover have "\<not> prefix m ((c # cs) @ m @ t)"
  proof
    assume "prefix m ((c # cs) @ m @ t)"
    then consider "prefix m (c # cs)" | us where "m = (c # cs) @ us"
      unfolding prefix_append by blast
    then show False
      using \<open>\<not> prefix (c # cs) m\<close> \<open>\<not> prefix m (c # cs)\<close> by cases simp_all
  qed
  ultimately show ?case using Cons by simp
qed

lemma clear_of_append: "clear_of m a \<Longrightarrow> clear_of m b \<Longrightarrow> clear_of m (a @ b)"
proof (induction a)
  case Nil
  then show ?case by simp
next
  case (Cons c cs)
  then have n: "\<not> prefix (c # cs) m" "\<not> prefix m (c # cs)" and "clear_of m cs" by simp_all
  have "\<not> prefix ((c # cs) @ b) m"
    using n(1) by (metis append_prefixD)
  moreover have "\<not> prefix m ((c # cs) @ b)"
  proof
    assume "prefix m ((c # cs) @ b)"
    then consider "prefix m (c # cs)" | us where "m = (c # cs) @ us"
      unfolding prefix_append by blast
    then show False using n by cases simp_all
  qed
  ultimately show ?case using Cons by simp
qed

lemma plain_Nil [simp]: "plain []"
  by (simp add: plain_def)

lemma plain_Cons [simp]: "plain (c # s) \<longleftrightarrow> c \<noteq> CHR ''<'' \<and> plain s"
  by (auto simp: plain_def)

lemma clear_of_plain: "plain s \<Longrightarrow> clear_of (CHR ''<'' # m) s"
  by (induction s) auto

lemma clear_of_plain_append:
  "plain s \<Longrightarrow> clear_of (CHR ''<'' # m) (s @ t) = clear_of (CHR ''<'' # m) t"
  by (induction s) auto

lemma clear_of_longer: "clear_of m s \<Longrightarrow> m \<noteq> [] \<Longrightarrow> clear_of (m @ n) s"
proof (induction s)
  case Nil
  then show ?case by simp
next
  case (Cons c cs)
  then have n: "\<not> prefix (c # cs) m" "\<not> prefix m (c # cs)" and "clear_of m cs" by simp_all
  have "\<not> prefix (m @ n) (c # cs)"
    using n(2) by (metis append_prefixD)
  moreover have "\<not> prefix (c # cs) (m @ n)"
  proof
    assume "prefix (c # cs) (m @ n)"
    then consider "prefix (c # cs) m" | us where "c # cs = m @ us"
      unfolding prefix_append by blast
    then show False using n by cases simp_all
  qed
  ultimately show ?case using Cons by simp
qed

lemma plain_append [simp]: "plain (a @ b) \<longleftrightarrow> plain a \<and> plain b"
  by (induction a) auto

lemma digit_plain: "k < 10 \<Longrightarrow> digit k \<noteq> CHR ''<''"
proof -
  assume "k < 10"
  then have "k = 0 \<or> k = 1 \<or> k = 2 \<or> k = 3 \<or> k = 4 \<or> k = 5 \<or> k = 6 \<or> k = 7 \<or> k = 8 \<or> k = 9"
    by arith
  then show ?thesis
    by (elim disjE) (simp_all add: digit_def)
qed

lemma plain_dec [simp]: "plain (dec n)"
proof (induction n rule: dec.induct)
  case (1 n)
  show ?case
  proof (cases "n < 10")
    case True
    then show ?thesis using digit_plain [of n] by (simp add: dec_small)
  next
    case False
    then have "plain (dec (n div 10))" using 1 by simp
    moreover have "digit (n mod 10) \<noteq> CHR ''<''" by (rule digit_plain) simp
    ultimately show ?thesis using False by (simp add: dec_big)
  qed
qed

lemma plain_dec02 [simp]: "plain (dec02 n)"
  by (simp add: dec02_def)

lemma clear_of_table_row_p:
  assumes "plain ident" "plain label" "plain val" "plain units"
  shows "clear_of ''<p>'' (table_row ident label val units)"
  using assms by (simp add: table_row_def clear_of_plain_append)

lemma clear_of_table_row_end_p:
  assumes "plain ident" "plain label" "plain val" "plain units"
  shows "clear_of ''</p>'' (table_row ident label val units)"
  using assms by (simp add: table_row_def clear_of_plain_append)

lemma clear_of_html_head: "clear_of ''<p>'' html_head"
  by (simp add: html_head_def)

lemma clear_of_response_header: "clear_of ''<p>'' (response_header r)"
  by (rule clear_of_plain) (simp add: response_header_def CRLF_def)

lemma air_quality_text_parts:
  "air_quality_text h d =
     ''<p><h2>Air Quality Data</h2>'' @
     (if AQI_accuracy (airQualityData d) = 0 then calibration_message h
      else air_quality_table h (airQualityData d)) @
     ''</p>''"
  by (simp add: air_quality_text_def accuracy_message_def calibration_message_def
      air_quality_table_def table_row_def aqi_row_def aqi_summary_row_def co2_row_def
      bvoc_row_def)

lemma particle_text_parts:
  "PARTICLE_SENSOR h \<noteq> PARTICLE_SENSOR_OFF \<Longrightarrow>
   particle_text h d =
     ''<p><h2>Air Particulate Data</h2>'' @
     particle_table (particleData d) (particle_units h) @ ''</p>''"
  by (simp add: particle_text_def particle_table_def table_row_def duty_cycle_row_def
      concentration_row_def)

lemma clear_of_concat:
  "(\<And>j. j \<in> set js \<Longrightarrow> clear_of m (f j)) \<Longrightarrow> clear_of m (concat (map f js))"
  by (induction js) (simp_all add: clear_of_append)

lemma clear_p_air_data:
  assumes "helpers_plain h d"
  shows "clear_of ''<p><h2>Air Quality Data</h2>'' (air_data_text h d)"
    and "clear_of ''<p><h2>Air Particulate Data</h2>'' (air_data_text h d)"
  using assms
  by (simp_all add: helpers_plain_def air_data_text_def temperature_row_def pressure_row_def
      humidity_row_def gas_row_def clear_of_plain_append)

lemma clear_p_air_quality:
  assumes "helpers_plain h d"
  shows "clear_of ''<p><h2>Air Particulate Data</h2>'' (air_quality_text h d)"
  using assms
  by (simp add: helpers_plain_def air_quality_text_def accuracy_message_def aqi_row_def
      aqi_summary_row_def co2_row_def bvoc_row_def clear_of_plain_append)

lemma clear_p_sound:
  "clear_of ''<p><h2>Air Particulate Data</h2>'' (sound_text h d)"
  unfolding sound_text_def band_rows_def
  by (intro clear_of_append clear_of_concat)
    (simp_all add: spl_row_def band_row_def peak_row_def clear_of_plain_append)

lemma clear_p_light:
  "clear_of ''<p><h2>Air Particulate Data</h2>'' (light_text d)"
  by (simp add: light_text_def illuminance_row_def white_row_def clear_of_plain_append)

lemma clear_p_head:
  "clear_of ''<p><h2>Air Quality Data</h2>'' (response_header r @ html_head)"
  "clear_of ''<p><h2>Air Particulate Data</h2>'' (response_header r @ html_head)"
proof -
  have p: "clear_of ''<p>'' (response_header r @ html_head)"
    using clear_of_response_header clear_of_html_head by (rule clear_of_append)
  show "clear_of ''<p><h2>Air Quality Data</h2>'' (response_header r @ html_head)"
    using clear_of_longer [OF p, where n = "''<h2>Air Quality Data</h2>''"] by simp
  show "clear_of ''<p><h2>Air Particulate Data</h2>'' (response_header r @ html_head)"
    using clear_of_longer [OF p, where n = "''<h2>Air Particulate Data</h2>''"] by simp
qed

lemma clear_end_calibration_message:
  "plain (interpret_AQI_accuracy h 0) \<Longrightarrow> clear_of ''</p>'' (calibration_message h)"
  by (simp add: calibration_message_def clear_of_plain_append)

lemma clear_end_air_quality_table:
  assumes "plain (SUBSCRIPT_2 h)" and "plain (interpret_AQI_value h (AQI_int q))"
  shows "clear_of ''</p>'' (air_quality_table h q)"
  using assms by (simp add: air_quality_table_def table_row_def clear_of_plain_append)

lemma clear_end_particle_table:
  assumes "plain units"
  shows "clear_of ''</p>'' (particle_table p units)"
  using assms by (simp add: particle_table_def table_row_def clear_of_plain_append)

lemma section_of_found:
  assumes "clear_of (''<p><h2>'' @ title @ ''</h2>'') before"
    and "clear_of ''</p>'' inner"
  shows "section_of title (before @ (''<p><h2>'' @ title @ ''</h2>'') @ inner @ ''</p>'' @ after) =
     Some inner"
proof -
  have "find_after (''<p><h2>'' @ title @ ''</h2>'')
      (before @ (''<p><h2>'' @ title @ ''</h2>'') @ inner @ ''</p>'' @ after) =
      Some (inner @ ''</p>'' @ after)"
    using find_after_clear [OF assms(1)] find_after_here [of "''<p><h2>'' @ title @ ''</h2>''"]
    by simp
  moreover have "text_before ''</p>'' (inner @ ''</p>'' @ after) = inner"
    using assms(2) by (rule text_before_clear) simp
  ultimately show ?thesis by (simp add: section_of_def)
qed

lemma section_of_absent:
  assumes "clear_of (''<p><h2>'' @ title @ ''</h2>'') page"
  shows "section_of title page = None"
  using find_after_none [OF assms] by (simp add: section_of_def)

lemma air_quality_section_of_page:
  assumes "helpers_plain h d"
  shows "section_of ''Air Quality Data'' (page_text h d r) =
     Some (if AQI_accuracy (airQualityData d) = 0 then calibration_message h
           else air_quality_table h (airQualityData d))"
proof -
  let ?inner = "if AQI_accuracy (airQualityData d) = 0 then calibration_message h
           else air_quality_table h (airQualityData d)"
  have page: "page_text h d r =
      ((response_header r @ html_head) @ air_data_text h d) @
      (''<p><h2>'' @ ''Air Quality Data'' @ ''</h2>'') @ ?inner @ ''</p>'' @
      (sound_text h d @ light_text d @ particle_text h d @ ''</body></html>'')"
    unfolding page_text_def air_quality_text_parts by simp
  have before: "clear_of (''<p><h2>'' @ ''Air Quality Data'' @ ''</h2>'')
      ((response_header r @ html_head) @ air_data_text h d)"
    using clear_of_append [OF clear_p_head(1) clear_p_air_data(1) [OF assms]] by simp
  have inner: "clear_of ''</p>'' ?inner"
    using assms clear_end_calibration_message clear_end_air_quality_table
    by (simp add: helpers_plain_def)
  show ?thesis
    unfolding page by (rule section_of_found [OF before inner])
qed

lemma particle_section_of_page:
  assumes "helpers_plain h d"
  shows "section_of ''Air Particulate Data'' (page_text h d r) =
     (if PARTICLE_SENSOR h = PARTICLE_SENSOR_OFF then None
      else Some (particle_table (particleData d) (particle_units h)))"
proof -
  let ?before = "(response_header r @ html_head) @ air_data_text h d @
      air_quality_text h d @ sound_text h d @ light_text d"
  have before: "clear_of (''<p><h2>'' @ ''Air Particulate Data'' @ ''</h2>'') ?before"
    using clear_of_append [OF clear_p_head(2)
        clear_of_append [OF clear_p_air_data(2) [OF assms]
          clear_of_append [OF clear_p_air_quality [OF assms]
            clear_of_append [OF clear_p_sound clear_p_light]]]]
    by simp
  show ?thesis
  proof (cases "PARTICLE_SENSOR h = PARTICLE_SENSOR_OFF")
    case True
    have "clear_of (''<p><h2>'' @ ''Air Particulate Data'' @ ''</h2>'') ''</body></html>''"
      by simp
    then have "clear_of (''<p><h2>'' @ ''Air Particulate Data'' @ ''</h2>'')
        (?before @ ''</body></html>'')"
      using before by (rule clear_of_append [rotated])
    moreover have "page_text h d r = ?before @ ''</body></html>''"
      using True by (simp add: page_text_def particle_text_def)
    ultimately show ?thesis
      using True section_of_absent by simp
  next
    case False
    have units: "plain (particle_units h)"
      using assms by (simp add: helpers_plain_def particle_units_def)
    have page: "page_text h d r =
        ?before @ (''<p><h2>'' @ ''Air Particulate Data'' @ ''</h2>'') @
        particle_table (particleData d) (particle_units h) @ ''</p>'' @ ''</body></html>''"
      unfolding page_text_def particle_text_parts [OF False] by simp
    show ?thesis
      unfolding page
      using False section_of_found [OF before clear_end_particle_table [OF units]]
      by simp
  qed
qed

lemma example_helpers_plain:
  "helpers_plain example_header (zero_records example_header)"
  "helpers_plain example_header full_scale_records"
  by (simp_all add: helpers_plain_def example_header_def zero_records_def
      full_scale_records_def)

lemma row_labels_clear:
  "clear_of ''<tr><td>'' s \<Longrightarrow> row_labels (s @ t) = row_labels t"
proof (induction s)
  case Nil
  then show ?case by simp
next
  case (Cons c cs)
  have "\<not> prefix ''<tr><td>'' ((c # cs) @ t)"
    using Cons.prems by (rule clear_of_no_prefix)
  moreover have "clear_of ''<tr><td>'' cs"
    using Cons.prems by simp
  ultimately show ?case using Cons.IH by simp
qed

lemma row_labels_table_row:
  assumes "plain ident" "plain label" "plain val" "plain units"
  shows "row_labels (table_row ident label val units @ rest) = label # row_labels rest"
proof -
  let ?tail = "''</td><td id='' @ [CHR 0x27] @ ident @ [CHR 0x27] @ ''>'' @
     val @ ''</td><td>'' @ units @ ''</td></tr>''"
  have row: "table_row ident label val units @ rest =
      ''<tr><td>'' @ label @ ''</td>'' @
      (''<td id='' @ [CHR 0x27] @ ident @ [CHR 0x27] @ ''>'' @
       val @ ''</td><td>'' @ units @ ''</td></tr>'' @ rest)"
    by (simp add: table_row_def)
  have label: "text_before ''</td>'' (label @ ''</td>'' @
      (''<td id='' @ [CHR 0x27] @ ident @ [CHR 0x27] @ ''>'' @
       val @ ''</td><td>'' @ units @ ''</td></tr>'' @ rest)) = label"
    using assms(2) by (intro text_before_clear clear_of_plain) simp_all
  have "clear_of ''<tr><td>'' (''tr><td>'' @ label @ ?tail)"
    using assms by (simp add: clear_of_plain_append)
  then have "row_labels ((''tr><td>'' @ label @ ?tail) @ rest) = row_labels rest"
    by (rule row_labels_clear)
  then have rest: "row_labels (''tr><td>'' @ label @ ''</td>'' @
      (''<td id='' @ [CHR 0x27] @ ident @ [CHR 0x27] @ ''>'' @
       val @ ''</td><td>'' @ units @ ''</td></tr>'' @ rest)) = row_labels rest"
    by simp
  show ?thesis
    unfolding row using label rest by simp
qed

lemma row_labels_air_quality_table:
  assumes "plain (SUBSCRIPT_2 h)" and "plain (interpret_AQI_value h (AQI_int q))"
  shows "row_labels (air_quality_table h q) =
     [''Air Quality Index'', ''Air Quality Summary'',
      ''Estimated CO'' @ SUBSCRIPT_2 h, ''Equivalent Breath VOC'']"
  using assms by (simp add: air_quality_table_def row_labels_table_row)

lemma row_labels_calibration_message:
  "plain (interpret_AQI_accuracy h 0) \<Longrightarrow> row_labels (calibration_message h) = []"
  using row_labels_clear [of "calibration_message h" "[]"]
  by (simp add: calibration_message_def clear_of_plain_append)

lemma row_labels_particle_table:
  assumes "plain units"
  shows "row_labels (particle_table p units) =
     [''Sensor Duty Cycle'', ''Particle Concentration'']"
  using assms by (simp add: particle_table_def row_labels_table_row)

section \<open>The claims\<close>

text \<open>
  C1. For records within the ranges of their fields, a header within its ranges and a
  refresh period of 16 bits, \<open>assembleWebPage\<close> runs without fault and the page it
  leaves in the page buffer, with its terminating NUL, takes at most the 2300 bytes of
  the buffer: no statement writes past the end of \<^verbatim>\<open>pageBuffer\<close> (or of the line
  buffer). This covers every particle sensor setting and both branches of the air
  quality section.
\<close>

theorem page_fits_pageBuffer:
  assumes "records_in_range h d" and "helpers_in_range h d" and "refresh < 65536"
  shows "\<exists>b'. assembleWebPage h d refresh b = Inr b' \<and>
           length (pageBuffer b') + 1 \<le> pageBuffer_size"
proof -
  obtain b' where "assembleWebPage h d refresh b = Inr b'"
    and "pageBuffer b' = page_text h d refresh"
    using assembleWebPage_in_range [OF assms] by blast
  then show ?thesis using length_page_text_le [OF assms] by simp
qed

theorem page_fits_pageBuffer_witness:
  "records_in_range example_header full_scale_records \<and>
   helpers_in_range example_header full_scale_records \<and>
   (\<exists>b'. assembleWebPage example_header full_scale_records 65535
           \<lparr>lineBuffer = [], pageBuffer = []\<rparr> = Inr b' \<and>
         length (pageBuffer b') + 1 \<le> pageBuffer_size)"
  using full_scale_in_range full_scale_helpers_in_range
    page_fits_pageBuffer [OF full_scale_in_range full_scale_helpers_in_range, of 65535]
  by simp

text \<open>
  C3, as the sketch has it. The refresh period chosen in \<^verbatim>\<open>setup\<close> is at most the
  time between two data releases (the page is refreshed at least as often as new data
  arrive), and a longer cycle gets a longer refresh period.
\<close>

theorem refresh_not_longer_than_cycle:
  "select_refreshPeriodSeconds period \<le> cycle_seconds period \<and>
   select_refreshPeriodSeconds CYCLE_PERIOD_3_S
     < select_refreshPeriodSeconds CYCLE_PERIOD_100_S \<and>
   select_refreshPeriodSeconds CYCLE_PERIOD_100_S
     < select_refreshPeriodSeconds CYCLE_PERIOD_300_S"
  by (cases period) (simp_all add: select_refreshPeriodSeconds_def)

text \<open>
  C3 as claimed (the refresh period is at least the cycle period) fails for the cycle
  of 100 seconds, whose refresh period is 30 seconds.
\<close>

theorem refresh_shorter_than_cycle_100:
  "\<not> cycle_seconds CYCLE_PERIOD_100_S \<le> select_refreshPeriodSeconds CYCLE_PERIOD_100_S"
  by (simp add: select_refreshPeriodSeconds_def)

text \<open>
  C8. Within the ranges, the page left by \<open>assembleWebPage\<close> begins with the status
  line \<^verbatim>\<open>HTTP/1.1 200 OK\<close>, the headers \<^verbatim>\<open>Content-type: text/html\<close>,
  \<^verbatim>\<open>Connection: close\<close> and \<^verbatim>\<open>Refresh:\<close> with the refresh period in decimal
  notation, and an empty line; the HTML document follows.
\<close>

theorem response_header_first:
  assumes "records_in_range h d" and "helpers_in_range h d" and "refresh < 65536"
  shows "\<exists>b' body. assembleWebPage h d refresh b = Inr b' \<and>
           pageBuffer b' =
             ''HTTP/1.1 200 OK'' @ CRLF @
             ''Content-type: text/html'' @ CRLF @
             ''Connection: close'' @ CRLF @
             ''Refresh: '' @ dec refresh @ CRLF @
             CRLF @ body \<and>
           undec (dec refresh) = refresh \<and>
           prefix ''<!DOCTYPE HTML><html>'' body \<and> suffix ''</body></html>'' body"
proof -
  obtain b' where b': "assembleWebPage h d refresh b = Inr b'"
    "pageBuffer b' = page_text h d refresh"
    using assembleWebPage_in_range [OF assms] by blast
  obtain body where body: "page_text h d refresh = response_header refresh @ body"
    "prefix ''<!DOCTYPE HTML><html>'' body" "suffix ''</body></html>'' body"
    using page_text_shape by blast
  have "pageBuffer b' = ''HTTP/1.1 200 OK'' @ CRLF @
             ''Content-type: text/html'' @ CRLF @
             ''Connection: close'' @ CRLF @
             ''Refresh: '' @ dec refresh @ CRLF @
             CRLF @ body"
    unfolding b'(2) body(1) response_header_def by (simp only: append_assoc)
  then show ?thesis using b'(1) body(2,3) undec_dec by blast
qed

theorem response_header_first_witness:
  "records_in_range example_header (zero_records example_header) \<and>
   helpers_in_range example_header (zero_records example_header) \<and>
   (\<exists>b' body. assembleWebPage example_header (zero_records example_header) 3
           \<lparr>lineBuffer = [], pageBuffer = []\<rparr> = Inr b' \<and>
         pageBuffer b' =
             ''HTTP/1.1 200 OK'' @ CRLF @
             ''Content-type: text/html'' @ CRLF @
             ''Connection: close'' @ CRLF @
             ''Refresh: 3'' @ CRLF @
             CRLF @ body \<and>
         prefix ''<!DOCTYPE HTML><html>'' body \<and> suffix ''</body></html>'' body)"
proof -
  have three: "dec 3 = ''3''"
    by (simp add: dec_small digit_def)
  obtain b' body where
    b': "assembleWebPage example_header (zero_records example_header) 3
           \<lparr>lineBuffer = [], pageBuffer = []\<rparr> = Inr b'"
    and page: "pageBuffer b' =
             ''HTTP/1.1 200 OK'' @ CRLF @
             ''Content-type: text/html'' @ CRLF @
             ''Connection: close'' @ CRLF @
             ''Refresh: '' @ dec 3 @ CRLF @
             CRLF @ body"
    and body: "prefix ''<!DOCTYPE HTML><html>'' body" "suffix ''</body></html>'' body"
    using response_header_first [OF zero_in_range zero_helpers_in_range, of 3
        "\<lparr>lineBuffer = [], pageBuffer = []\<rparr>"]
    by auto
  have "pageBuffer b' =
             ''HTTP/1.1 200 OK'' @ CRLF @
             ''Content-type: text/html'' @ CRLF @
             ''Connection: close'' @ CRLF @
             ''Refresh: 3'' @ CRLF @
             CRLF @ body"
    unfolding page three by simp
  then show ?thesis
    using zero_in_range zero_helpers_in_range b' body by blast
qed

text \<open>
  C9. The result of \<open>assembleWebPage\<close> is a function of the header, the records and
  the refresh period alone: what the two buffers held before the call has no part in
  it. Two calls with the same records and the same refresh period leave the same page,
  whatever the first call left behind.
\<close>

theorem assembleWebPage_deterministic:
  "assembleWebPage h d refresh b1 = assembleWebPage h d refresh b2"
  by (rule assembleWebPage_any_buffers)

text \<open>
  C4. Whatever the client sends, \<open>handleClientRequests\<close> sends the whole page
  buffer exactly when the bytes received contain an empty line (two end-of-line markers
  with nothing but carriage returns between them), and sends nothing otherwise; in both
  cases it closes the connection. A client that sends \<^verbatim>\<open>GET / HTTP/1.1\<close> and an
  empty line is sent the page; a client that sends the request line alone and closes is
  sent nothing; and when no client is pending nothing is done.
\<close>

theorem response_when_empty_line:
  "handleClientRequests page (Some passes) =
     Some \<lparr>sent = (if empty_line_observed (received passes) then Some page else None),
           stopped = True\<rparr> \<and>
   handleClientRequests page (Some (sends (''GET / HTTP/1.1'' @ CRLF @ CRLF))) =
     Some \<lparr>sent = Some page, stopped = True\<rparr> \<and>
   handleClientRequests page (Some (sends (''GET / HTTP/1.1'' @ CRLF))) =
     Some \<lparr>sent = None, stopped = True\<rparr> \<and>
   handleClientRequests page None = None"
proof (intro conjI)
  show "handleClientRequests page (Some passes) =
     Some \<lparr>sent = (if empty_line_observed (received passes) then Some page else None),
           stopped = True\<rparr>"
    by (simp add: handleClientRequests_def request_loop_iff)
  show "handleClientRequests page None = None"
    by (simp add: handleClientRequests_def)
qed (rule handleClientRequests_complete_request handleClientRequests_request_line_only)+

text \<open>
  C6, what the sketch does before the first readout. \<^verbatim>\<open>setup\<close> does not call
  \<open>assembleWebPage\<close>, so the page buffer still holds its initial zeros, the empty
  string, and a client that sends a complete request is sent the empty string: not the
  page of the all-zero records, which is not empty.
\<close>

theorem empty_page_before_first_readout:
  "\<exists>s tr. setup_sketch ap ip (power_on h period False) = Some (s, tr) \<and>
     pageBuffer (bufs s) = [] \<and>
     handleClientRequests (pageBuffer (bufs s))
         (Some (sends (''GET / HTTP/1.1'' @ CRLF @ CRLF))) =
       Some \<lparr>sent = Some [], stopped = True\<rparr> \<and>
     page_text h (readings s) (refreshPeriodSeconds s) \<noteq> []"
proof -
  obtain s tr where s: "setup_sketch ap ip (power_on h period False) = Some (s, tr)"
    by (simp add: setup_sketch_def power_on_def)
  have "pageBuffer (bufs s) = []"
    using s by (rule setup_leaves_page_empty)
  then show ?thesis
    using s handleClientRequests_complete_request [of "[]"] page_text_not_empty by auto
qed

text \<open>
  C7. In every call of \<^verbatim>\<open>loop\<close> that assembles its page without fault, the
  waiting loop and the readout make no WiFi call. When the sketch joined a network, the
  WiFi status is then read, after the page of the new data is in the page buffer; when
  it is not \<open>WL_CONNECTED\<close> the sketch reports the status, calls
  \<^verbatim>\<open>connectToWiFi\<close>, takes the new address and prints it, and \<^verbatim>\<open>loop\<close> returns.
  When the sketch created its own network, nothing is checked and the address is kept.
\<close>

theorem link_checked_each_cycle:
  assumes "records_in_range h (receive_data h (bus w) (readings s))"
    and "helpers_in_range h (receive_data h (bus w) (readings s))"
    and "refreshPeriodSeconds s < 65536"
  shows "\<exists>s' checked.
     loop h w s =
       Inr (s', wait_for_data (pageBuffer (bufs s)) (waiting_passes w s) @
                receive_events h @ checked) \<and>
     pageBuffer (bufs s') =
       page_text h (receive_data h (bus w) (readings s)) (refreshPeriodSeconds s) \<and>
     WiFi_status \<notin> set (wait_for_data (pageBuffer (bufs s)) (waiting_passes w s) @
       receive_events h) \<and>
     connectToWiFi \<notin> set (wait_for_data (pageBuffer (bufs s)) (waiting_passes w s) @
       receive_events h) \<and>
     (if createWifiNetwork s then checked = [] \<and> theIP s' = theIP s
      else if status w = WL_CONNECTED h then checked = [WiFi_status] \<and> theIP s' = theIP s
      else checked =
          [WiFi_status,
           Serial_print ''Wifi status: '',
           Serial_println (interpret_WiFi_status h (status w)),
           connectToWiFi,
           WiFi_localIP,
           Serial_print ''View your page at http://'',
           Serial_println (print_IPAddress (localIP w))] \<and>
        theIP s' = localIP w)"
proof -
  obtain b where b: "pageBuffer b =
      page_text h (receive_data h (bus w) (readings s)) (refreshPeriodSeconds s)"
    and run: "loop h w s =
           Inr (fst (check_WiFi h w
                  (s\<lparr>readings := receive_data h (bus w) (readings s), bufs := b,
                     ready_assertion_event := ready_before_check w\<rparr>)),
                wait_for_data (pageBuffer (bufs s)) (waiting_passes w s) @
                receive_events h @
                snd (check_WiFi h w
                  (s\<lparr>readings := receive_data h (bus w) (readings s), bufs := b,
                     ready_assertion_event := ready_before_check w\<rparr>)))"
    using loop_in_range [OF assms] by blast
  define st where "st = s\<lparr>readings := receive_data h (bus w) (readings s), bufs := b,
                     ready_assertion_event := ready_before_check w\<rparr>"
  let ?s' = "fst (check_WiFi h w st)" and ?checked = "snd (check_WiFi h w st)"
  have ran: "loop h w s =
       Inr (?s', wait_for_data (pageBuffer (bufs s)) (waiting_passes w s) @
                receive_events h @ ?checked)"
    using run by (simp add: st_def)
  have page: "pageBuffer (bufs ?s') =
       page_text h (receive_data h (bus w) (readings s)) (refreshPeriodSeconds s)"
    using b by (simp add: check_WiFi_def st_def)
  have quiet: "WiFi_status \<notin> set (wait_for_data (pageBuffer (bufs s)) (waiting_passes w s) @
       receive_events h)"
    "connectToWiFi \<notin> set (wait_for_data (pageBuffer (bufs s)) (waiting_passes w s) @
       receive_events h)"
    using wait_for_data_events receive_events_events by simp_all
  have check: "if createWifiNetwork s then ?checked = [] \<and> theIP ?s' = theIP s
      else if status w = WL_CONNECTED h then ?checked = [WiFi_status] \<and> theIP ?s' = theIP s
      else ?checked =
          [WiFi_status,
           Serial_print ''Wifi status: '',
           Serial_println (interpret_WiFi_status h (status w)),
           connectToWiFi,
           WiFi_localIP,
           Serial_print ''View your page at http://'',
           Serial_println (print_IPAddress (localIP w))] \<and>
        theIP ?s' = localIP w"
    by (simp add: check_WiFi_def st_def)
  show ?thesis
    using ran page quiet check by blast
qed

theorem link_checked_each_cycle_witness:
  "records_in_range example_header
     (receive_data example_header (bus example_surroundings) (readings example_started)) \<and>
   helpers_in_range example_header
     (receive_data example_header (bus example_surroundings) (readings example_started)) \<and>
   refreshPeriodSeconds example_started < 65536 \<and>
   (\<exists>s'. loop example_header example_surroundings example_started =
       Inr (s',
         [yield,
          client_handled \<lparr>sent = Some [], stopped = True\<rparr>, yield,
          client_handled \<lparr>sent = None, stopped = True\<rparr>, yield] @
         receive_events example_header @
         [WiFi_status,
          Serial_print ''Wifi status: '',
          Serial_println ''code 6'',
          connectToWiFi,
          WiFi_localIP,
          Serial_print ''View your page at http://'',
          Serial_println ''192.168.12.21'']) \<and>
     theIP s' = (192, 168, 12, 21))"
proof -
  have r: "records_in_range example_header
     (receive_data example_header (bus example_surroundings) (readings example_started))"
    unfolding example_received by (rule full_scale_in_range)
  have p: "helpers_in_range example_header
     (receive_data example_header (bus example_surroundings) (readings example_started))"
    unfolding example_received by (rule full_scale_helpers_in_range)
  have q: "refreshPeriodSeconds example_started < 65536"
    by (simp add: example_started_def)
  have mode: "\<not> createWifiNetwork example_started"
    "status example_surroundings \<noteq> WL_CONNECTED example_header"
    by (simp_all add: example_started_def example_sketch_def power_on_def
        example_surroundings_def example_header_def)
  have printed: "interpret_WiFi_status example_header (status example_surroundings) = ''code 6''"
    "print_IPAddress (192, 168, 12, 21) = ''192.168.12.21''"
    "localIP example_surroundings = (192, 168, 12, 21)"
    by (simp_all add: example_header_def example_surroundings_def print_IPAddress_def
        dec_small dec_big digit_def)
  obtain s' checked where
    "loop example_header example_surroundings example_started =
       Inr (s', wait_for_data (pageBuffer (bufs example_started))
                  (waiting_passes example_surroundings example_started) @
                receive_events example_header @ checked)"
    and "if createWifiNetwork example_started
      then checked = [] \<and> theIP s' = theIP example_started
      else if status example_surroundings = WL_CONNECTED example_header
      then checked = [WiFi_status] \<and> theIP s' = theIP example_started
      else checked =
          [WiFi_status,
           Serial_print ''Wifi status: '',
           Serial_println (interpret_WiFi_status example_header (status example_surroundings)),
           connectToWiFi,
           WiFi_localIP,
           Serial_print ''View your page at http://'',
           Serial_println (print_IPAddress (localIP example_surroundings))] \<and>
        theIP s' = localIP example_surroundings"
    using link_checked_each_cycle [OF r p q] by blast
  then have "loop example_header example_surroundings example_started =
       Inr (s',
         [yield,
          client_handled \<lparr>sent = Some [], stopped = True\<rparr>, yield,
          client_handled \<lparr>sent = None, stopped = True\<rparr>, yield] @
         receive_events example_header @
         [WiFi_status,
          Serial_print ''Wifi status: '',
          Serial_println ''code 6'',
          connectToWiFi,
          WiFi_localIP,
          Serial_print ''View your page at http://'',
          Serial_println ''192.168.12.21'']) \<and>
     theIP s' = (192, 168, 12, 21)"
    using mode by (simp add: example_wait printed)
  then show ?thesis
    using r p q by blast
qed

text \<open>
  C10. In a sketch that joined a network: a call of \<^verbatim>\<open>loop\<close> that finds the WiFi
  disconnected and reconnects ends with \<^verbatim>\<open>ready_assertion_event\<close> cleared, also
  when the ready signal came during \<^verbatim>\<open>connectToWiFi\<close>, so the next call makes all
  the passes of its waiting loop until the signal comes again; a call that finds the
  WiFi connected does not reconnect and leaves the flag as the signal set it.
\<close>

theorem flag_cleared_after_reconnecting:
  assumes "records_in_range h (receive_data h (bus w) (readings s))"
    and "helpers_in_range h (receive_data h (bus w) (readings s))"
    and "refreshPeriodSeconds s < 65536"
    and "\<not> createWifiNetwork s"
  shows "\<exists>s' tr.
     loop h w s = Inr (s', tr) \<and>
     (if status w = WL_CONNECTED h
      then connectToWiFi \<notin> set tr \<and> ready_assertion_event s' = ready_before_check w
      else connectToWiFi \<in> set tr \<and> ready_assertion_event s' = False \<and>
        waiting_passes w2 s' = waiting w2)"
proof -
  obtain b where run: "loop h w s =
           Inr (fst (check_WiFi h w
                  (s\<lparr>readings := receive_data h (bus w) (readings s), bufs := b,
                     ready_assertion_event := ready_before_check w\<rparr>)),
                wait_for_data (pageBuffer (bufs s)) (waiting_passes w s) @
                receive_events h @
                snd (check_WiFi h w
                  (s\<lparr>readings := receive_data h (bus w) (readings s), bufs := b,
                     ready_assertion_event := ready_before_check w\<rparr>)))"
    using loop_in_range [OF assms(1-3)] by blast
  define st where "st = s\<lparr>readings := receive_data h (bus w) (readings s), bufs := b,
                     ready_assertion_event := ready_before_check w\<rparr>"
  let ?s' = "fst (check_WiFi h w st)"
  let ?tr = "wait_for_data (pageBuffer (bufs s)) (waiting_passes w s) @
                receive_events h @ snd (check_WiFi h w st)"
  have ran: "loop h w s = Inr (?s', ?tr)"
    using run by (simp add: st_def)
  have "if status w = WL_CONNECTED h
      then connectToWiFi \<notin> set ?tr \<and> ready_assertion_event ?s' = ready_before_check w
      else connectToWiFi \<in> set ?tr \<and> ready_assertion_event ?s' = False \<and>
        waiting_passes w2 ?s' = waiting w2"
    using assms(4) wait_for_data_events receive_events_events
    by (simp add: check_WiFi_def st_def waiting_passes_def)
  then show ?thesis
    using ran by blast
qed

theorem flag_cleared_after_reconnecting_witness:
  "records_in_range example_header
     (receive_data example_header (bus example_surroundings) (readings example_started)) \<and>
   helpers_in_range example_header
     (receive_data example_header (bus example_surroundings) (readings example_started)) \<and>
   refreshPeriodSeconds example_started < 65536 \<and>
   \<not> createWifiNetwork example_started \<and>
   ready_while_connecting example_surroundings \<and>
   (\<exists>s' tr. loop example_header example_surroundings example_started = Inr (s', tr) \<and>
      connectToWiFi \<in> set tr \<and> ready_assertion_event s' = False \<and>
      waiting_passes example_surroundings s' = waiting example_surroundings)"
proof -
  have r: "records_in_range example_header
     (receive_data example_header (bus example_surroundings) (readings example_started))"
    unfolding example_received by (rule full_scale_in_range)
  have p: "helpers_in_range example_header
     (receive_data example_header (bus example_surroundings) (readings example_started))"
    unfolding example_received by (rule full_scale_helpers_in_range)
  have q: "refreshPeriodSeconds example_started < 65536"
    by (simp add: example_started_def)
  have mode: "\<not> createWifiNetwork example_started"
    "status example_surroundings \<noteq> WL_CONNECTED example_header"
    "ready_while_connecting example_surroundings"
    by (simp_all add: example_started_def example_sketch_def power_on_def
        example_surroundings_def example_header_def)
  show ?thesis
    using r p q mode
      flag_cleared_after_reconnecting [OF r p q mode(1), of example_surroundings]
    by simp
qed

text \<open>
  C2. Within the ranges and with plain helper strings, the section headed
  \<^verbatim>\<open>Air Quality Data\<close> of the page left by \<open>assembleWebPage\<close> is the message
  on the calibration alone, with no table row, when the accuracy is 0; otherwise it is
  the table whose rows are, in this order, Air Quality Index, Air Quality Summary,
  Estimated CO2 and Equivalent Breath VOC, and no others.
\<close>

theorem air_quality_section_contents:
  assumes "records_in_range h d" and "helpers_in_range h d" and "refresh < 65536"
    and "helpers_plain h d"
  shows "\<exists>b' section. assembleWebPage h d refresh b = Inr b' \<and>
     section_of ''Air Quality Data'' (pageBuffer b') = Some section \<and>
     (if AQI_accuracy (airQualityData d) = 0
      then section = calibration_message h \<and> row_labels section = []
      else section = air_quality_table h (airQualityData d) \<and>
        row_labels section =
          [''Air Quality Index'', ''Air Quality Summary'',
           ''Estimated CO'' @ SUBSCRIPT_2 h, ''Equivalent Breath VOC''])"
proof -
  obtain b' where b': "assembleWebPage h d refresh b = Inr b'"
    and page: "pageBuffer b' = page_text h d refresh"
    using assembleWebPage_in_range [OF assms(1-3)] by blast
  let ?section = "if AQI_accuracy (airQualityData d) = 0 then calibration_message h
             else air_quality_table h (airQualityData d)"
  have found: "section_of ''Air Quality Data'' (pageBuffer b') = Some ?section"
    unfolding page by (rule air_quality_section_of_page [OF assms(4)])
  have plain: "plain (interpret_AQI_accuracy h 0)" "plain (SUBSCRIPT_2 h)"
    "plain (interpret_AQI_value h (AQI_int (airQualityData d)))"
    using assms(4) by (simp_all add: helpers_plain_def)
  have "if AQI_accuracy (airQualityData d) = 0
      then ?section = calibration_message h \<and> row_labels ?section = []
      else ?section = air_quality_table h (airQualityData d) \<and>
        row_labels ?section =
          [''Air Quality Index'', ''Air Quality Summary'',
           ''Estimated CO'' @ SUBSCRIPT_2 h, ''Equivalent Breath VOC'']"
    using row_labels_calibration_message [OF plain(1)]
      row_labels_air_quality_table [OF plain(2,3)]
    by simp
  then show ?thesis
    using b' found by blast
qed

theorem air_quality_section_contents_witness:
  "records_in_range example_header (zero_records example_header) \<and>
   helpers_in_range example_header (zero_records example_header) \<and>
   helpers_plain example_header (zero_records example_header) \<and>
   (\<exists>b'. assembleWebPage example_header (zero_records example_header) 3
         \<lparr>lineBuffer = [], pageBuffer = []\<rparr> = Inr b' \<and>
      section_of ''Air Quality Data'' (pageBuffer b') =
        Some ''<a>Not yet valid, self-calibration incomplete</a>'')"
proof -
  have zero: "AQI_accuracy (airQualityData (zero_records example_header)) = 0"
    by (simp add: zero_records_def)
  have message: "calibration_message example_header =
      ''<a>Not yet valid, self-calibration incomplete</a>''"
    by (simp add: calibration_message_def example_header_def)
  obtain b' found where
    "assembleWebPage example_header (zero_records example_header) 3
         \<lparr>lineBuffer = [], pageBuffer = []\<rparr> = Inr b'"
    and "section_of ''Air Quality Data'' (pageBuffer b') = Some found"
    and "found = calibration_message example_header"
    using air_quality_section_contents [OF zero_in_range zero_helpers_in_range _
        example_helpers_plain(1), of 3 "\<lparr>lineBuffer = [], pageBuffer = []\<rparr>"] zero
    by auto
  then show ?thesis
    using zero_in_range zero_helpers_in_range example_helpers_plain(1) message by auto
qed

text \<open>
  C5. Within the ranges and with plain helper strings, the page left by
  \<open>assembleWebPage\<close> has no section headed \<^verbatim>\<open>Air Particulate Data\<close> when the
  particle sensor is off; for the PPD42 and for the SDS011 it has the section, a table of
  the duty cycle and the concentration, with \<^verbatim>\<open>ppL\<close> as the unit of the
  concentration for the PPD42 and the SDS011 unit symbol for the SDS011.
\<close>

theorem particle_section_contents:
  assumes "records_in_range h d" and "helpers_in_range h d" and "refresh < 65536"
    and "helpers_plain h d"
  shows "\<exists>b'. assembleWebPage h d refresh b = Inr b' \<and>
     section_of ''Air Particulate Data'' (pageBuffer b') =
       (case PARTICLE_SENSOR h of
          PARTICLE_SENSOR_OFF \<Rightarrow> None
        | PARTICLE_SENSOR_PPD42 \<Rightarrow> Some (particle_table (particleData d) ''ppL'')
        | PARTICLE_SENSOR_SDS011 \<Rightarrow>
            Some (particle_table (particleData d) (SDS011_UNIT_SYMBOL h))) \<and>
     map_option row_labels (section_of ''Air Particulate Data'' (pageBuffer b')) =
       (case PARTICLE_SENSOR h of
          PARTICLE_SENSOR_OFF \<Rightarrow> None
        | _ \<Rightarrow> Some [''Sensor Duty Cycle'', ''Particle Concentration''])"
proof -
  obtain b' where b': "assembleWebPage h d refresh b = Inr b'"
    and page: "pageBuffer b' = page_text h d refresh"
    using assembleWebPage_in_range [OF assms(1-3)] by blast
  have "plain (SDS011_UNIT_SYMBOL h)"
    using assms(4) by (simp add: helpers_plain_def)
  then have labels: "row_labels (particle_table (particleData d) (SDS011_UNIT_SYMBOL h)) =
      [''Sensor Duty Cycle'', ''Particle Concentration'']"
    "row_labels (particle_table (particleData d) ''ppL'') =
      [''Sensor Duty Cycle'', ''Particle Concentration'']"
    by (simp_all add: row_labels_particle_table)
  show ?thesis
    using b' labels particle_section_of_page [OF assms(4), of refresh]
    by (cases "PARTICLE_SENSOR h") (simp_all add: particle_units_def page)
qed

theorem particle_section_contents_witness:
  "records_in_range example_header full_scale_records \<and>
   helpers_in_range example_header full_scale_records \<and>
   helpers_plain example_header full_scale_records \<and>
   PARTICLE_SENSOR example_header = PARTICLE_SENSOR_PPD42 \<and>
   (\<exists>b'. assembleWebPage example_header full_scale_records 3
         \<lparr>lineBuffer = [], pageBuffer = []\<rparr> = Inr b' \<and>
      section_of ''Air Particulate Data'' (pageBuffer b') =
        Some (''<table>'' @
          ''<tr><td>Sensor Duty Cycle</td><td id='v5'>255.99</td><td>%</td></tr>'' @
          ''<tr><td>Particle Concentration</td><td id='v5'>65535.99</td><td>ppL</td></tr>'' @
          ''</table>''))"
proof -
  have sensor: "PARTICLE_SENSOR example_header = PARTICLE_SENSOR_PPD42"
    by (simp add: example_header_def)
  have table: "particle_table (particleData full_scale_records) ''ppL'' =
      ''<table>'' @
          ''<tr><td>Sensor Duty Cycle</td><td id='v5'>255.99</td><td>%</td></tr>'' @
          ''<tr><td>Particle Concentration</td><td id='v5'>65535.99</td><td>ppL</td></tr>'' @
          ''</table>''"
    by (simp add: particle_table_def table_row_def full_scale_records_def dec02_def
        dec_small dec_big digit_def)
  obtain b' where
    b': "assembleWebPage example_header full_scale_records 3
         \<lparr>lineBuffer = [], pageBuffer = []\<rparr> = Inr b'"
    and found: "section_of ''Air Particulate Data'' (pageBuffer b') =
        Some (particle_table (particleData full_scale_records) ''ppL'')"
    using particle_section_contents [OF full_scale_in_range full_scale_helpers_in_range _
        example_helpers_plain(2), of 3 "\<lparr>lineBuffer = [], pageBuffer = []\<rparr>"] sensor
    by auto
  show ?thesis
    using full_scale_in_range full_scale_helpers_in_range example_helpers_plain(2) sensor
      b' found [unfolded table]
    by blast
qed

end
